theory Spec2Isabelle
  imports Complex_Main "HOL-Library.Sublist"
begin

section \<open>Sunny AI: the session orchestration core\<close>

text \<open>
  A shallow embedding of \<^verbatim>\<open>controller.py\<close> (SunnyAIController),
  \<^verbatim>\<open>meeting_bot/recorder.py\<close> (MeetingRecorder),
  \<^verbatim>\<open>meeting_bot/joiner.py\<close> (MeetingJoiner), the entry points of the
  enrichment providers under \<^verbatim>\<open>advanced_features/\<close> and the HTTP handlers of
  \<^verbatim>\<open>api/server.py\<close>.

  Conventions.
  \<^item> A Python exception is the left summand of \<open>string + 'a\<close>; the string is \<open>str(e)\<close>.
  \<^item> What a third-party library does (the browser, the audio device, the speech and
    language models, the vector store, SMTP, SQLite) is not code of this repository: its
    outcome at each call is an input of the model, a field of the records \<open>Providers\<close>
    and \<open>JoinEnv\<close>. Every \<^verbatim>\<open>try\<close>/\<^verbatim>\<open>except\<close> of the repository's own code
    is a branch of the model.
  \<^item> \<^verbatim>\<open>datetime\<close> values are integer seconds of a logical clock, and
    \<^verbatim>\<open>asyncio.sleep(n)\<close> advances the caller's reading of that clock by \<open>n\<close>.
  \<^item> A coroutine runs atomically between two of its suspension points that matter for
    the interleaving with other coroutines: \<^verbatim>\<open>_run_session\<close> is cut where
    \<^verbatim>\<open>MeetingRecorder.start_session\<close> awaits the join, and at its
    \<^verbatim>\<open>while self.recorder.is_active\<close> loop; \<^verbatim>\<open>_monitor_meeting\<close> is
    cut at its sleep.
\<close>

subsection \<open>Result types of the providers\<close>

type_synonym path = string
type_synonym exn = string

record TranscriptionSegment =
  ts_start :: real
  ts_end :: real
  ts_text :: string
  ts_confidence :: real
  ts_speaker :: "string option"

record TranscriptionResult =
  tr_text :: string
  tr_segments :: "TranscriptionSegment list"
  tr_language :: string
  tr_duration :: real

record SpeakerSegment =
  sp_speaker :: string
  sp_start :: real
  sp_end :: real
  sp_text :: string
  sp_confidence :: real

record DiarizationResult =
  d_segments :: "SpeakerSegment list"
  num_speakers :: int
  speaker_stats :: "(string \<times> real) list"

record TopicSegment =
  tp_title :: string
  tp_start_time :: real
  tp_end_time :: real
  tp_summary :: string
  tp_key_points :: "string list"
  tp_transcript_excerpt :: string

record TopicSegmentationResult =
  topics :: "TopicSegment list"
  total_topics :: int

datatype Sentiment = POSITIVE | NEUTRAL | NEGATIVE

datatype EmotionalTone =
  AGREEMENT | DISAGREEMENT | ENTHUSIASM | CONCERN | FRUSTRATION | TONE_NEUTRAL

record SentimentSegment =
  ss_text :: string
  ss_sentiment :: Sentiment
  ss_confidence :: real
  ss_emotional_tones :: "EmotionalTone list"
  ss_speaker :: "string option"
  ss_start_time :: real
  ss_end_time :: real

record SentimentResult =
  overall_sentiment :: Sentiment
  overall_confidence :: real
  sentiment_distribution :: "(string \<times> real) list"
  s_segments :: "SentimentSegment list"
  conflict_detected :: bool
  agreement_level :: real
  key_emotional_moments :: "string list"

record ExtractedActionItem =
  ai_id :: int
  ai_task :: string
  ai_owner :: "string option"
  ai_deadline :: "string option"
  ai_priority :: string
  ai_status :: string
  ai_context :: string
  ai_confidence :: real
  ai_source_timestamp :: real

record ActionItemResult =
  items :: "ExtractedActionItem list"
  total_items :: int
  items_with_owners :: int
  items_with_deadlines :: int

record SummaryActionItem =
  sa_task :: string
  sa_owner :: "string option"
  sa_deadline :: "string option"
  sa_priority :: string

record MeetingSummary =
  executive_summary :: string
  key_discussion_points :: "string list"
  decisions_made :: "string list"
  summary_action_items :: "SummaryActionItem list"
  confidence_score :: real
  raw_transcript :: string

record MeetingMetrics =
  mm_platform :: string
  mm_date :: "int option"
  mm_duration_seconds :: int
  mm_duration_formatted :: string
  mm_num_speakers :: int
  mm_most_active_speaker :: "string option"
  mm_total_words :: int
  mm_words_per_minute :: real
  mm_num_topics :: int
  mm_num_decisions :: int
  mm_num_action_items :: int
  mm_overall_sentiment :: string
  mm_conflict_detected :: bool
  mm_agreement_level :: real
  mm_participation_balance :: real
  mm_summary_confidence :: real

record FollowupEmail =
  subject :: string
  body_text :: string
  body_html :: string
  recipients_suggested :: "string list"
  action_items_included :: int

text \<open>The values the dataclasses take when constructed without arguments.\<close>

definition DiarizationResult_default :: DiarizationResult where
  "DiarizationResult_default = \<lparr>d_segments = [], num_speakers = 0, speaker_stats = []\<rparr>"

definition TopicSegmentationResult_default :: TopicSegmentationResult where
  "TopicSegmentationResult_default = \<lparr>topics = [], total_topics = 0\<rparr>"

definition SentimentResult_default :: SentimentResult where
  "SentimentResult_default =
     \<lparr>overall_sentiment = NEUTRAL, overall_confidence = 0, sentiment_distribution = [],
      s_segments = [], conflict_detected = False, agreement_level = 0,
      key_emotional_moments = []\<rparr>"

definition ActionItemResult_default :: ActionItemResult where
  "ActionItemResult_default =
     \<lparr>items = [], total_items = 0, items_with_owners = 0, items_with_deadlines = 0\<rparr>"

definition MeetingMetrics_default :: MeetingMetrics where
  "MeetingMetrics_default =
     \<lparr>mm_platform = [], mm_date = None, mm_duration_seconds = 0, mm_duration_formatted = [],
      mm_num_speakers = 0, mm_most_active_speaker = None, mm_total_words = 0,
      mm_words_per_minute = 0, mm_num_topics = 0, mm_num_decisions = 0,
      mm_num_action_items = 0, mm_overall_sentiment = ''neutral'', mm_conflict_detected = False,
      mm_agreement_level = 0, mm_participation_balance = 0, mm_summary_confidence = 0\<rparr>"

definition FollowupEmail_disabled :: FollowupEmail where
  "FollowupEmail_disabled =
     \<lparr>subject = [], body_text = [], body_html = [], recipients_suggested = [],
      action_items_included = 0\<rparr>"

subsection \<open>recorder.py: the data model\<close>

datatype RecordingState = IDLE | JOINING | IN_MEETING | RECORDING | ENDED | ERROR

datatype MeetingPlatform = ZOOM | GOOGLE_MEET | UNKNOWN

fun platform_value :: "MeetingPlatform \<Rightarrow> string" where
  "platform_value ZOOM = ''zoom''"
| "platform_value GOOGLE_MEET = ''google_meet''"
| "platform_value UNKNOWN = ''unknown''"

text \<open>
  The \<^verbatim>\<open>metadata\<close> dict of a MeetingSession only ever holds the two keys
  \<^verbatim>\<open>duration_seconds\<close> and \<^verbatim>\<open>duration_formatted\<close>, written together by
  \<^verbatim>\<open>end_session\<close>.
\<close>

record MeetingSession =
  ms_meeting_url :: string
  ms_platform :: MeetingPlatform
  ms_start_time :: "int option"
  ms_end_time :: "int option"
  ms_audio_file :: "path option"
  ms_state :: RecordingState
  ms_error_message :: "string option"
  ms_duration_seconds :: "int option"
  ms_duration_formatted :: "string option"

subsection \<open>storage.py and controller.py: the data model\<close>

text \<open>
  \<^verbatim>\<open>summary_json\<close> is the text \<^verbatim>\<open>json.dumps\<close> produces for a dict; it is
  modelled by the values the dict holds, and it is never the empty string.
\<close>

record SummaryJson =
  sj_executive_summary :: string
  sj_key_points :: "string list"
  sj_decisions :: "string list"
  sj_action_items :: "SummaryActionItem list"
  sj_analytics :: MeetingMetrics

record MeetingRecord =
  mr_id :: "int option"
  mr_meeting_url :: string
  mr_platform :: string
  mr_start_time :: "int option"
  mr_end_time :: "int option"
  mr_duration_seconds :: int
  mr_audio_file :: "string option"
  mr_transcript :: "string option"
  mr_summary_json :: "SummaryJson option"
  mr_pdf_path :: "string option"
  mr_email_sent :: bool
  mr_email_recipient :: "string option"

text \<open>
  One entry of \<^verbatim>\<open>self._sessions\<close>. The keys a dict gets only later
  (\<^verbatim>\<open>error\<close>, \<^verbatim>\<open>diarization\<close>, ...) are \<open>None\<close> while absent.
  \<open>meeting_session\<close> is a reference: the address of the MeetingSession object, which the
  recorder holds too.
\<close>

type_synonym addr = nat

record Session =
  sess_id :: int
  meeting_url :: string
  recipient_email :: string
  send_email :: bool
  status :: string
  meeting_session :: "addr option"
  transcript :: "TranscriptionResult option"
  summary :: "MeetingSummary option"
  pdf_path :: "path option"
  db_record_id :: "int option"
  error :: "string option"
  diarization :: "DiarizationResult option"
  aligned_segments :: "SpeakerSegment list option"
  session_topics :: "TopicSegmentationResult option"
  sentiment :: "SentimentResult option"
  action_items :: "ActionItemResult option"
  analytics :: "MeetingMetrics option"
  followup_email :: "FollowupEmail option"

text \<open>
  The keys of the \<^verbatim>\<open>meeting\<close> section of the configuration that the core
  reads; \<open>None\<close> is an absent key.

  The controller with the recorder, joiner, audio capture and storage it owns.
  \<open>objects\<close> is the store of MeetingSession objects; \<open>recorder_session\<close> is
  \<^verbatim>\<open>self.recorder.session\<close>. \<open>monitors\<close> lists the
  \<^verbatim>\<open>_monitor_meeting\<close> tasks that still run, each with the \<^verbatim>\<open>start_time\<close>
  local to it, and \<open>monitoring_task\<close> is the task that the recorder's attribute
  \<^verbatim>\<open>_monitoring_task\<close> refers to: starting a recording creates a new task and
  rebinds the attribute, and an earlier task goes on running. \<open>joiner_page\<close> says
  whether \<^verbatim>\<open>self.joiner.page\<close> is set. \<open>tasks\<close> lists the session ids whose
  \<^verbatim>\<open>_run_session\<close> task was created and has not run yet, \<open>joining\<close> those
  whose task is suspended in the join, \<open>waiting\<close> those whose task is suspended in
  \<^verbatim>\<open>while self.recorder.is_active\<close>.
\<close>

record Config =
  max_duration_minutes :: "int option"
  end_detection_interval_seconds :: "int option"
  waiting_room_timeout_seconds :: "int option"

record Controller =
  config :: Config
  sessions :: "int \<rightharpoonup> Session"
  session_counter :: int
  objects :: "addr \<rightharpoonup> MeetingSession"
  next_addr :: addr
  recorder_session :: "addr option"
  monitoring_task :: "nat option"
  monitors :: "(nat \<times> int) list"
  next_task :: nat
  audio_is_recording :: bool
  audio_current_file :: "path option"
  joiner_page :: bool
  joiner_is_in_meeting :: bool
  storage :: "int \<rightharpoonup> MeetingRecord"
  tasks :: "int list"
  joining :: "int list"
  waiting :: "int list"

definition new_controller :: "Config \<Rightarrow> Controller" where
  "new_controller cfg =
     \<lparr>config = cfg, sessions = Map.empty, session_counter = 0, objects = Map.empty, next_addr = 0,
      recorder_session = None, monitoring_task = None, monitors = [], next_task = 0,
      audio_is_recording = False, audio_current_file = None, joiner_page = False,
      joiner_is_in_meeting = False, storage = Map.empty, tasks = [], joining = [],
      waiting = []\<rparr>"

subsection \<open>controller.py: start\_session\<close>

definition new_session :: "int \<Rightarrow> string \<Rightarrow> string \<Rightarrow> bool \<Rightarrow> Session" where
  "new_session i url email send =
     \<lparr>sess_id = i, meeting_url = url, recipient_email = email, send_email = send,
      status = ''starting'', meeting_session = None, transcript = None, summary = None,
      pdf_path = None, db_record_id = None, error = None, diarization = None,
      aligned_segments = None, session_topics = None, sentiment = None, action_items = None,
      analytics = None, followup_email = None\<rparr>"

definition start_session :: "string \<Rightarrow> string \<Rightarrow> bool \<Rightarrow> Controller \<Rightarrow> int \<times> Controller" where
  "start_session url email send c =
     (let session_id = session_counter c + 1 in
      (session_id,
       c\<lparr>session_counter := session_id,
         sessions := (sessions c)(session_id \<mapsto> new_session session_id url email send),
         tasks := tasks c @ [session_id]\<rparr>))"


subsection \<open>String helpers\<close>

text \<open>
  \<^verbatim>\<open>str.lower\<close> on ASCII letters, \<^verbatim>\<open>needle in hay\<close>, and
  \<^verbatim>\<open>str(n)\<close> for an integer.
\<close>

definition lower_char :: "char \<Rightarrow> char" where
  "lower_char ch =
     (let n = (of_char ch :: nat) in if 65 \<le> n \<and> n \<le> 90 then char_of (n + 32) else ch)"

definition lower :: "string \<Rightarrow> string" where
  "lower s = map lower_char s"

definition contains :: "string \<Rightarrow> string \<Rightarrow> bool" where
  "contains needle hay = sublist needle hay"

definition digit_char :: "nat \<Rightarrow> char" where
  "digit_char d = char_of (48 + d)"

function str_nat :: "nat \<Rightarrow> string" where
  "str_nat n = (if n < 10 then [digit_char n] else str_nat (n div 10) @ [digit_char (n mod 10)])"
  by pat_completeness auto
termination
  by (relation "measure (\<lambda>n. n)") auto

definition str_int :: "int \<Rightarrow> string" where
  "str_int i = (if i < 0 then CHR ''-'' # str_nat (nat (- i)) else str_nat (nat i))"

subsection \<open>joiner.py\<close>

definition detect_platform :: "string \<Rightarrow> MeetingPlatform" where
  "detect_platform url =
     (let url_lower = lower url in
      if contains ''zoom.us'' url_lower \<or> contains ''zoom.com'' url_lower then ZOOM
      else if contains ''meet.google.com'' url_lower then GOOGLE_MEET
      else UNKNOWN)"

text \<open>
  What one pass of the loop of \<^verbatim>\<open>_wait_for_admission\<close> sees:
  the result of \<^verbatim>\<open>_verify_in_meeting\<close> (which catches every exception itself) and
  that of \<^verbatim>\<open>page.content()\<close>.
\<close>

record Poll =
  verify_in_meeting :: bool
  page_content :: "exn + string"

text \<open>
  The browser as one join attempt meets it: \<open>browser_launch\<close> is
  \<^verbatim>\<open>initialize_browser\<close> (run when there is no browser yet), \<open>page_load\<close> the
  page interaction of \<^verbatim>\<open>_join_google_meet\<close>/\<^verbatim>\<open>_join_zoom\<close> up to the first
  \<^verbatim>\<open>_verify_in_meeting\<close>, \<open>verified\<close> the result of that call, and
  \<open>waiting_room t\<close> the page at \<open>t\<close> seconds of waiting.
\<close>

record JoinEnv =
  browser_launch :: "exn + unit"
  page_load :: "exn + unit"
  verified :: bool
  waiting_room :: "int \<Rightarrow> Poll"

definition denied_page :: "string \<Rightarrow> bool" where
  "denied_page content =
     (contains ''denied'' (lower content) \<or> contains ''removed'' (lower content))"

text \<open>
  \<^verbatim>\<open>_wait_for_admission\<close>: the loop, started with \<open>elapsed = 0\<close>. The result is
  what the method returns (or raises), paired with the value of \<open>elapsed\<close> at that
  moment: the seconds slept in \<^verbatim>\<open>asyncio.sleep(check_interval)\<close>.
\<close>

definition check_interval :: int where
  "check_interval = 5"

function wait_loop :: "int \<Rightarrow> (int \<Rightarrow> Poll) \<Rightarrow> int \<Rightarrow> (exn + bool) \<times> int" where
  "wait_loop timeout page elapsed =
     (if elapsed < timeout then
        (let elapsed' = elapsed + check_interval in
         if verify_in_meeting (page elapsed') then (Inr True, elapsed')
         else (case page_content (page elapsed') of
                 Inl e \<Rightarrow> (Inl e, elapsed')
               | Inr content \<Rightarrow>
                   (if denied_page content then (Inr False, elapsed')
                    else wait_loop timeout page elapsed')))
      else (Inr False, elapsed))"
  by pat_completeness auto
termination
  by (relation "measure (\<lambda>(timeout, page, elapsed). nat (timeout - elapsed))")
     (auto simp: check_interval_def)

declare wait_loop.simps [simp del]

definition waiting_room_timeout :: "Config \<Rightarrow> int" where
  "waiting_room_timeout cfg =
     (case waiting_room_timeout_seconds cfg of None \<Rightarrow> 300 | Some t \<Rightarrow> t)"

definition wait_for_admission :: "Config \<Rightarrow> JoinEnv \<Rightarrow> (exn + bool) \<times> int" where
  "wait_for_admission cfg env = wait_loop (waiting_room_timeout cfg) (waiting_room env) 0"

text \<open>
  \<^verbatim>\<open>_join_google_meet\<close> and \<^verbatim>\<open>_join_zoom\<close>: both are one
  \<^verbatim>\<open>try\<close> block that loads the page, verifies, and otherwise waits for admission;
  the handler turns every exception into \<open>False\<close>.
\<close>

definition join_platform :: "Config \<Rightarrow> JoinEnv \<Rightarrow> bool" where
  "join_platform cfg env =
     (case page_load env of
        Inl e \<Rightarrow> False
      | Inr u \<Rightarrow>
          (if verified env then True
           else (case fst (wait_for_admission cfg env) of Inl e \<Rightarrow> False | Inr b \<Rightarrow> b)))"

text \<open>
  \<^verbatim>\<open>join_meeting\<close>: \<^verbatim>\<open>initialize_browser\<close> is called outside the
  \<^verbatim>\<open>try\<close>, so its exception leaves the method.
\<close>

definition join_meeting :: "Config \<Rightarrow> JoinEnv \<Rightarrow> string \<Rightarrow> exn + bool" where
  "join_meeting cfg env url =
     (case browser_launch env of
        Inl e \<Rightarrow> Inl e
      | Inr u \<Rightarrow>
          (case detect_platform url of
             GOOGLE_MEET \<Rightarrow> Inr (join_platform cfg env)
           | ZOOM \<Rightarrow> Inr (join_platform cfg env)
           | UNKNOWN \<Rightarrow> Inr False))"


subsection \<open>recorder.py\<close>

text \<open>
  \<^verbatim>\<open>_format_duration\<close>, on whole seconds.
\<close>

definition format_duration :: "int \<Rightarrow> string" where
  "format_duration seconds =
     (let hours = seconds div 3600;
          minutes = (seconds mod 3600) div 60;
          secs = seconds mod 60
      in if hours > 0 then str_int hours @ ''h '' @ str_int minutes @ ''m '' @ str_int secs @ ''s''
         else if minutes > 0 then str_int minutes @ ''m '' @ str_int secs @ ''s''
         else str_int secs @ ''s'')"

definition max_duration :: "Config \<Rightarrow> int" where
  "max_duration cfg = (case max_duration_minutes cfg of None \<Rightarrow> 180 | Some m \<Rightarrow> m) * 60"

definition end_detection_interval :: "Config \<Rightarrow> int" where
  "end_detection_interval cfg =
     (case end_detection_interval_seconds cfg of None \<Rightarrow> 10 | Some i \<Rightarrow> i)"

text \<open>The property \<^verbatim>\<open>MeetingRecorder.is_active\<close>.\<close>

definition is_active :: "Controller \<Rightarrow> bool" where
  "is_active c =
     (case recorder_session c of
        None \<Rightarrow> False
      | Some a \<Rightarrow> (case objects c a of None \<Rightarrow> False | Some m \<Rightarrow> ms_state m = RECORDING))"

text \<open>
  Assignment to the fields of the MeetingSession object at an address; every holder of
  the address sees it.
\<close>

definition update_object :: "addr \<Rightarrow> (MeetingSession \<Rightarrow> MeetingSession) \<Rightarrow> Controller \<Rightarrow> Controller" where
  "update_object a f c =
     (case objects c a of
        None \<Rightarrow> c
      | Some m \<Rightarrow> c\<lparr>objects := (objects c)(a \<mapsto> f m)\<rparr>)"

text \<open>
  \<^verbatim>\<open>AudioCapture.start_recording\<close>: while a recording is in progress it returns
  the current file; otherwise the device decides (\<open>device\<close> is the file name chosen, or
  the exception of the audio library, after which \<^verbatim>\<open>_recording\<close> is false again;
  the file name assigned before a start that fails is not kept, since nothing reads it).
\<close>

definition start_recording :: "(exn + path) \<Rightarrow> Controller \<Rightarrow> (exn + path option) \<times> Controller" where
  "start_recording device c =
     (if audio_is_recording c then (Inr (audio_current_file c), c)
      else case device of
             Inl e \<Rightarrow> (Inl e, c\<lparr>audio_is_recording := False\<rparr>)
           | Inr f \<Rightarrow> (Inr (Some f), c\<lparr>audio_current_file := Some f, audio_is_recording := True\<rparr>))"

text \<open>
  What \<^verbatim>\<open>MeetingRecorder.start_session\<close> meets: the browser, the audio device,
  the clock when the meeting is joined and the clock when the monitoring task starts.
\<close>

record StartEnv =
  join_env :: JoinEnv
  audio_device :: "exn + path"
  joined_at :: int
  monitor_started_at :: int

text \<open>
  \<^verbatim>\<open>MeetingRecorder.start_session\<close> up to the point where it awaits
  \<^verbatim>\<open>join_meeting\<close>: a new MeetingSession in state JOINING replaces the
  recorder's session.
\<close>

definition recorder_begin_join :: "string \<Rightarrow> Controller \<Rightarrow> Controller" where
  "recorder_begin_join url c =
     (let platform = detect_platform url;
          a = next_addr c
      in c\<lparr>objects := (objects c)(a \<mapsto>
              \<lparr>ms_meeting_url = url, ms_platform = platform, ms_start_time = None,
               ms_end_time = None, ms_audio_file = None, ms_state = JOINING,
               ms_error_message = None, ms_duration_seconds = None,
               ms_duration_formatted = None\<rparr>),
           next_addr := Suc a,
           recorder_session := Some a\<rparr>)"

text \<open>
  Assignment through \<^verbatim>\<open>self.session\<close>: to the object the recorder refers to at
  that moment.
\<close>

definition update_current :: "(MeetingSession \<Rightarrow> MeetingSession) \<Rightarrow> Controller \<Rightarrow> Controller" where
  "update_current f c =
     (case recorder_session c of None \<Rightarrow> c | Some a \<Rightarrow> update_object a f c)"

text \<open>
  \<^verbatim>\<open>MeetingRecorder.start_session\<close> from the moment the join returns (or raises)
  to its \<^verbatim>\<open>return self.session\<close>. Every assignment goes through
  \<^verbatim>\<open>self.session\<close>, and the result is the object that attribute refers to
  then. A successful start creates a monitoring task and binds the attribute to it.
\<close>

definition recorder_finish_join ::
  "StartEnv \<Rightarrow> string \<Rightarrow> Controller \<Rightarrow> addr option \<times> Controller" where
  "recorder_finish_join env url c =
     (case join_meeting (config c) (join_env env) url of
        Inl e \<Rightarrow>
          (recorder_session c,
           update_current (\<lambda>m. m\<lparr>ms_state := ERROR, ms_error_message := Some e\<rparr>) c)
      | Inr joined \<Rightarrow>
          (let c2 = c\<lparr>joiner_page := True, joiner_is_in_meeting := joined\<rparr> in
           if \<not> joined then
             (recorder_session c,
              update_current
                (\<lambda>m. m\<lparr>ms_state := ERROR,
                       ms_error_message := Some ''Failed to join meeting''\<rparr>) c2)
           else
             (let c3 = update_current
                        (\<lambda>m. m\<lparr>ms_state := IN_MEETING,
                               ms_start_time := Some (joined_at env)\<rparr>) c2;
                  r = start_recording (audio_device env) c3;
                  c4 = snd r
              in (case fst r of
                    Inl e \<Rightarrow>
                      (recorder_session c,
                       update_current
                         (\<lambda>m. m\<lparr>ms_state := ERROR, ms_error_message := Some e\<rparr>) c4)
                  | Inr audio_file \<Rightarrow>
                      (recorder_session c,
                       (update_current
                          (\<lambda>m. m\<lparr>ms_audio_file := audio_file, ms_state := RECORDING\<rparr>) c4)
                       \<lparr>monitors := monitors c4 @ [(next_task c4, monitor_started_at env)],
                        monitoring_task := Some (next_task c4),
                        next_task := Suc (next_task c4)\<rparr>)))))"

text \<open>
  \<^verbatim>\<open>MeetingRecorder.start_session\<close> when no other coroutine runs while it awaits
  the join.
\<close>

definition recorder_start_session ::
  "StartEnv \<Rightarrow> string \<Rightarrow> Controller \<Rightarrow> addr option \<times> Controller" where
  "recorder_start_session env url c = recorder_finish_join env url (recorder_begin_join url c)"

text \<open>
  What \<^verbatim>\<open>end_session\<close> meets: \<open>stream_stop\<close> is the audio stream being stopped in
  \<^verbatim>\<open>stop_recording\<close>, \<open>browser_close\<close> the closing of the browser in
  \<^verbatim>\<open>leave_meeting\<close>, \<open>ended_at\<close> the clock. No caller sets the
  \<^verbatim>\<open>_on_meeting_end\<close> callback. An exception leaves the method with the
  assignments made so far in place: the second component of the result.
\<close>

record EndEnv =
  stream_stop :: "exn + unit"
  browser_close :: "exn + unit"
  ended_at :: int

text \<open>
  \<^verbatim>\<open>self._monitoring_task.cancel()\<close>: the task the attribute refers to, if it
  still runs, stops running. (When the monitoring task itself calls
  \<^verbatim>\<open>end_session\<close> it cancels itself, catches the CancelledError at the
  \<^verbatim>\<open>await\<close> that follows and goes on: \<open>monitor_tick\<close> below decides whether
  that task runs on.)
\<close>

definition cancel_monitoring :: "Controller \<Rightarrow> Controller" where
  "cancel_monitoring c =
     (case monitoring_task c of
        None \<Rightarrow> c
      | Some t \<Rightarrow> c\<lparr>monitors := filter (\<lambda>m. fst m \<noteq> t) (monitors c)\<rparr>)"

definition end_session :: "EndEnv \<Rightarrow> Controller \<Rightarrow> exn option \<times> Controller" where
  "end_session env c =
     (case recorder_session c of
        None \<Rightarrow> (None, c)
      | Some a \<Rightarrow>
          (let c1 = cancel_monitoring c;
               c2 = c1\<lparr>audio_is_recording := False\<rparr>
           in (case (if audio_is_recording c1 then stream_stop env else Inr ()) of
                 Inl e \<Rightarrow> (Some e, c2)
               | Inr u \<Rightarrow>
                  (case browser_close env of
                     Inl e \<Rightarrow> (Some e, c2)
                   | Inr u \<Rightarrow>
                  (None,
                   update_object a
                     (\<lambda>m. (let m' = m\<lparr>ms_end_time := Some (ended_at env), ms_state := ENDED\<rparr> in
                          (case ms_start_time m' of
                             None \<Rightarrow> m'
                           | Some t0 \<Rightarrow>
                               m'\<lparr>ms_duration_seconds := Some (ended_at env - t0),
                                  ms_duration_formatted :=
                                    Some (format_duration (ended_at env - t0))\<rparr>)))
                     (c2\<lparr>joiner_is_in_meeting := False\<rparr>))))))"

text \<open>
  One pass of the loop of one \<^verbatim>\<open>_monitor_meeting\<close> task, from the moment the task
  wakes from \<^verbatim>\<open>asyncio.sleep(self.end_detection_interval)\<close> to the moment it
  sleeps again or ends. \<open>monitor\<close> names the task, \<open>woke_at\<close> is the clock at the
  wake-up, \<open>meeting_ended\<close> the result of \<^verbatim>\<open>_check_meeting_ended\<close>.
  \<^item> The call of \<^verbatim>\<open>end_session\<close> for the maximal duration is outside any
    \<^verbatim>\<open>try\<close>: whether it returns (\<^verbatim>\<open>break\<close>) or raises, the task ends.
  \<^item> The call of \<^verbatim>\<open>end_session\<close> for a meeting that has ended is inside the
    \<^verbatim>\<open>try\<close> block: when it raises, the handler logs and the loop goes on.
  \<^item> The loop goes on while the recorder's session is in state RECORDING.
\<close>

record Tick =
  monitor :: nat
  woke_at :: int
  meeting_ended :: "exn + bool"
  end_env :: EndEnv

definition stop_running :: "nat \<Rightarrow> Controller \<Rightarrow> Controller" where
  "stop_running t c = c\<lparr>monitors := filter (\<lambda>m. fst m \<noteq> t) (monitors c)\<rparr>"

definition loop_again :: "nat \<Rightarrow> int \<Rightarrow> Controller \<Rightarrow> Controller" where
  "loop_again t start_time c =
     (if is_active c
      then c\<lparr>monitors := (t, start_time) # filter (\<lambda>m. fst m \<noteq> t) (monitors c)\<rparr>
      else stop_running t c)"

definition monitor_tick :: "Tick \<Rightarrow> Controller \<Rightarrow> Controller" where
  "monitor_tick tk c =
     (case map_of (monitors c) (monitor tk) of
        None \<Rightarrow> c
      | Some start_time \<Rightarrow>
          (let elapsed = woke_at tk - start_time in
           if elapsed \<ge> max_duration (config c) then
             stop_running (monitor tk) (snd (end_session (end_env tk) c))
           else if joiner_page c \<and> meeting_ended tk = Inr True then
             (let r = end_session (end_env tk) c in
              (case fst r of
                 None \<Rightarrow> stop_running (monitor tk) (snd r)
               | Some e \<Rightarrow> loop_again (monitor tk) start_time (snd r)))
           else loop_again (monitor tk) start_time c))"

fun monitor_meeting :: "Tick list \<Rightarrow> Controller \<Rightarrow> Controller" where
  "monitor_meeting [] c = c"
| "monitor_meeting (tk # tks) c = monitor_meeting tks (monitor_tick tk c)"

subsection \<open>The enrichment providers: entry points\<close>

text \<open>
  The switches the providers read from the configuration and the outcome of the work
  each of them delegates. For a provider whose entry point is a \<^verbatim>\<open>try\<close> block,
  the outcome is that of the body of the block.
\<close>

record Providers =
  audio_file_exists :: bool
  whisper :: "exn + TranscriptionResult"
  diarization_enabled :: bool
  diarizer_initialized :: bool
  pyannote :: "exn + DiarizationResult"
  topics_enabled :: bool
  identify_topics :: "exn + TopicSegment list"
  sentiment_enabled :: bool
  sentiment_body :: "exn + SentimentResult"
  llm_summary :: "exn + MeetingSummary"
  actions_enabled :: bool
  extract_body :: "exn + ActionItemResult"
  analytics_enabled :: bool
  metrics_body :: "exn + MeetingMetrics"
  pdf_report :: "exn + path"
  db_save :: "exn + int"
  memory_initialized :: bool
  memory_store :: "exn + int"
  followup_enabled :: bool
  followup_llm :: "exn + FollowupEmail"
  followup_template :: "exn + FollowupEmail"
  smtp_send :: "exn + unit"
  db_update :: "exn + unit"

text \<open>\<^verbatim>\<open>WhisperEngine.transcribe\<close>: logs and re-raises.\<close>

definition transcribe :: "Providers \<Rightarrow> exn + TranscriptionResult" where
  "transcribe P = (case whisper P of Inl e \<Rightarrow> Inl e | Inr r \<Rightarrow> Inr r)"

text \<open>
  \<^verbatim>\<open>SpeakerDiarizer.diarize\<close>, with \<^verbatim>\<open>_diarize_pyannote\<close> and
  \<^verbatim>\<open>_diarize_fallback\<close>.
\<close>

definition diarize_fallback :: DiarizationResult where
  "diarize_fallback = \<lparr>d_segments = [], num_speakers = 0, speaker_stats = []\<rparr>"

definition diarize_pyannote :: "Providers \<Rightarrow> DiarizationResult" where
  "diarize_pyannote P = (case pyannote P of Inl e \<Rightarrow> diarize_fallback | Inr r \<Rightarrow> r)"

definition diarize :: "Providers \<Rightarrow> DiarizationResult" where
  "diarize P =
     (if \<not> diarization_enabled P then DiarizationResult_default
      else if diarizer_initialized P then diarize_pyannote P
      else diarize_fallback)"

text \<open>
  \<^verbatim>\<open>SpeakerDiarizer.align_with_transcript\<close>. The controller passes it
  \<^verbatim>\<open>transcript_result.segments\<close>, a list of TranscriptionSegment dataclass
  instances, and the loop body starts with \<^verbatim>\<open>trans_seg.get("start", 0)\<close>:
  a dataclass instance has no method \<^verbatim>\<open>get\<close>, so the first pass of the loop
  raises AttributeError.
\<close>

definition align_with_transcript ::
  "DiarizationResult \<Rightarrow> TranscriptionSegment list \<Rightarrow> exn + SpeakerSegment list" where
  "align_with_transcript diar transcript_segments =
     (if d_segments diar = [] \<or> transcript_segments = [] then Inr []
      else Inl ''AttributeError: TranscriptionSegment object has no attribute get'')"

text \<open>\<^verbatim>\<open>str.strip\<close> removes ASCII whitespace at both ends.\<close>

definition is_space :: "char \<Rightarrow> bool" where
  "is_space ch = (ch \<in> set [CHR '' '', CHR 0x09, CHR 0x0A, CHR 0x0B, CHR 0x0C, CHR 0x0D])"

definition strip :: "string \<Rightarrow> string" where
  "strip s = rev (dropWhile is_space (rev (dropWhile is_space s)))"

text \<open>\<^verbatim>\<open>TopicSegmenter.segment_topics\<close>.\<close>

definition segment_topics :: "Providers \<Rightarrow> string \<Rightarrow> TopicSegmentationResult" where
  "segment_topics P transcript_text =
     (if \<not> topics_enabled P then TopicSegmentationResult_default
      else if transcript_text = [] \<or> length (strip transcript_text) < 100
        then TopicSegmentationResult_default
      else (case identify_topics P of
              Inl e \<Rightarrow> TopicSegmentationResult_default
            | Inr ts \<Rightarrow> \<lparr>topics = ts, total_topics = int (length ts)\<rparr>))"

text \<open>\<^verbatim>\<open>SentimentAnalyzer.analyze\<close>.\<close>

definition analyze :: "Providers \<Rightarrow> SentimentResult" where
  "analyze P =
     (if \<not> sentiment_enabled P then SentimentResult_default
      else (case sentiment_body P of Inl e \<Rightarrow> SentimentResult_default | Inr r \<Rightarrow> r))"

text \<open>\<^verbatim>\<open>LLMPipeline.summarize_transcript\<close>: no handler.\<close>

definition summarize_transcript :: "Providers \<Rightarrow> exn + MeetingSummary" where
  "summarize_transcript P = llm_summary P"

text \<open>\<^verbatim>\<open>ActionItemExtractor.extract\<close> (\<open>extract\<close> is a keyword of Isabelle).\<close>

definition extract_actions :: "Providers \<Rightarrow> ActionItemResult" where
  "extract_actions P =
     (if \<not> actions_enabled P then ActionItemResult_default
      else (case extract_body P of Inl e \<Rightarrow> ActionItemResult_default | Inr r \<Rightarrow> r))"

text \<open>
  \<^verbatim>\<open>MeetingAnalytics.generate_metrics\<close>: no handler. Its body guards its
  divisions and reads only fields of the dataclasses the controller passes, so on the
  values of the pipeline \<open>metrics_body\<close> is a right summand; the left summand stands
  for a raise that nothing in the method would catch.
\<close>

definition generate_metrics :: "Providers \<Rightarrow> exn + MeetingMetrics" where
  "generate_metrics P =
     (if \<not> analytics_enabled P then Inr MeetingMetrics_default else metrics_body P)"

text \<open>
  \<^verbatim>\<open>MeetingMemory.store_meeting\<close>, called only when the memory is initialised:
  no handler around the calls to the embedding model and the collection.
\<close>

definition store_meeting :: "Providers \<Rightarrow> exn + int" where
  "store_meeting P = memory_store P"

text \<open>
  \<^verbatim>\<open>FollowupEmailGenerator.generate\<close>. The controller constructs the generator
  with the summarizer as its LLM, so the \<^verbatim>\<open>try\<close> block takes the LLM branch; the
  handler calls \<^verbatim>\<open>_generate_template\<close>.
\<close>

definition generate :: "Providers \<Rightarrow> exn + FollowupEmail" where
  "generate P =
     (if \<not> followup_enabled P then Inr FollowupEmail_disabled
      else (case followup_llm P of
              Inr m \<Rightarrow> Inr m
            | Inl e \<Rightarrow> followup_template P))"


subsection \<open>controller.py: \_process\_recording\<close>

type_synonym store = "int \<rightharpoonup> MeetingRecord"

text \<open>The local variables that later steps of the method read.\<close>

record Locals =
  transcript_result :: TranscriptionResult
  diarization_result :: DiarizationResult
  topic_result :: TopicSegmentationResult
  sentiment_result :: SentimentResult
  summary_result :: MeetingSummary
  action_result :: ActionItemResult
  metrics :: MeetingMetrics

text \<open>
  Steps 2 to 8, inside the \<^verbatim>\<open>try\<close> block. An exception leaves the block with
  the session dict as assigned so far.
\<close>

definition enrich :: "Providers \<Rightarrow> Session \<Rightarrow> exn \<times> Session + Session \<times> Locals" where
  "enrich P s0 =
     (let s1 = s0\<lparr>status := ''transcribing''\<rparr> in
      (case transcribe P of
         Inl e \<Rightarrow> Inl (e, s1)
       | Inr tr \<Rightarrow>
          (let transcript_segments = tr_segments tr;
               s2 = s1\<lparr>transcript := Some tr, status := ''diarizing''\<rparr>;
               dr = diarize P;
               s3 = s2\<lparr>diarization := Some dr\<rparr>
           in (case (if d_segments dr \<noteq> [] \<and> transcript_segments \<noteq> []
                     then map_sum id Some (align_with_transcript dr transcript_segments)
                     else Inr None) of
                 Inl e \<Rightarrow> Inl (e, s3)
               | Inr aligned \<Rightarrow>
                  (let s4 = (case aligned of
                               None \<Rightarrow> s3
                             | Some al \<Rightarrow> s3\<lparr>aligned_segments := Some al\<rparr>);
                       s5 = s4\<lparr>status := ''segmenting_topics''\<rparr>;
                       tp = segment_topics P (tr_text tr);
                       s6 = s5\<lparr>session_topics := Some tp, status := ''analyzing_sentiment''\<rparr>;
                       se = analyze P;
                       s7 = s6\<lparr>sentiment := Some se, status := ''summarizing''\<rparr>
                   in (case summarize_transcript P of
                         Inl e \<Rightarrow> Inl (e, s7)
                       | Inr su \<Rightarrow>
                          (let s8 = s7\<lparr>summary := Some su, status := ''extracting_actions''\<rparr>;
                               ar = extract_actions P;
                               s9 = s8\<lparr>action_items := Some ar,
                                       status := ''generating_analytics''\<rparr>
                           in (case generate_metrics P of
                                 Inl e \<Rightarrow> Inl (e, s9)
                               | Inr m \<Rightarrow>
                                   Inr (s9\<lparr>analytics := Some m\<rparr>,
                                        \<lparr>transcript_result = tr, diarization_result = dr,
                                         topic_result = tp, sentiment_result = se,
                                         summary_result = su, action_result = ar,
                                         metrics = m\<rparr>)))))))))"

text \<open>The MeetingRecord of step 10.\<close>

definition make_db_record :: "MeetingSession \<Rightarrow> Session \<Rightarrow> Locals \<Rightarrow> path \<Rightarrow> MeetingRecord" where
  "make_db_record ms s L pdf =
     \<lparr>mr_id = None,
      mr_meeting_url = meeting_url s,
      mr_platform = platform_value (ms_platform ms),
      mr_start_time = ms_start_time ms,
      mr_end_time = ms_end_time ms,
      mr_duration_seconds = (case ms_duration_seconds ms of None \<Rightarrow> 0 | Some d \<Rightarrow> d),
      mr_audio_file = ms_audio_file ms,
      mr_transcript = Some (tr_text (transcript_result L)),
      mr_summary_json =
        Some \<lparr>sj_executive_summary = executive_summary (summary_result L),
              sj_key_points = key_discussion_points (summary_result L),
              sj_decisions = decisions_made (summary_result L),
              sj_action_items = summary_action_items (summary_result L),
              sj_analytics = metrics L\<rparr>,
      mr_pdf_path = Some pdf,
      mr_email_sent = False,
      mr_email_recipient = None\<rparr>"

text \<open>Step 11, taken only when the memory is initialised.\<close>

definition memory_step :: "Providers \<Rightarrow> Session \<Rightarrow> exn \<times> Session + Session" where
  "memory_step P s =
     (if memory_initialized P then
        (let s1 = s\<lparr>status := ''storing_memory''\<rparr> in
         (case store_meeting P of Inl e \<Rightarrow> Inl (e, s1) | Inr n \<Rightarrow> Inr s1))
      else Inr s)"

text \<open>
  Steps 9 to 12. \<^verbatim>\<open>save_meeting\<close> inserts the record and returns the row id
  SQLite gave it.
\<close>

definition assemble ::
  "Providers \<Rightarrow> MeetingSession \<Rightarrow> Locals \<Rightarrow> Session \<Rightarrow> store \<Rightarrow>
     exn \<times> Session \<times> store + Session \<times> store \<times> path \<times> int \<times> MeetingRecord" where
  "assemble P ms L s0 st =
     (let s1 = s0\<lparr>status := ''generating_pdf''\<rparr> in
      (case pdf_report P of
         Inl e \<Rightarrow> Inl (e, s1, st)
       | Inr pdf \<Rightarrow>
          (let s2 = s1\<lparr>pdf_path := Some pdf\<rparr>;
               db_record = make_db_record ms s2 L pdf
           in (case db_save P of
                 Inl e \<Rightarrow> Inl (e, s2, st)
               | Inr record_id \<Rightarrow>
                  (let st1 = st(record_id \<mapsto> db_record\<lparr>mr_id := Some record_id\<rparr>);
                       s3 = s2\<lparr>db_record_id := Some record_id\<rparr>
                   in (case memory_step P s3 of
                         Inl (e, s4) \<Rightarrow> Inl (e, s4, st1)
                       | Inr s4 \<Rightarrow>
                          (let s5 = s4\<lparr>status := ''generating_followup''\<rparr> in
                           (case generate P of
                              Inl e \<Rightarrow> Inl (e, s5, st1)
                            | Inr mail \<Rightarrow>
                                Inr (s5\<lparr>followup_email := Some mail\<rparr>, st1, pdf, record_id,
                                     db_record)))))))))"

text \<open>
  Step 13 and the assignment of \<^verbatim>\<open>"completed"\<close> that follows it. The inner
  \<^verbatim>\<open>try\<close> block sends the mail and then updates the database record; its handler
  only logs.
\<close>

definition send_step :: "Providers \<Rightarrow> int \<Rightarrow> MeetingRecord \<Rightarrow> Session \<Rightarrow> store \<Rightarrow> store" where
  "send_step P record_id db_record s st =
     (case smtp_send P of
        Inl e \<Rightarrow> st
      | Inr u \<Rightarrow>
         (case db_update P of
            Inl e \<Rightarrow> st
          | Inr u \<Rightarrow>
              st(record_id \<mapsto> db_record\<lparr>mr_id := Some record_id, mr_email_sent := True,
                                        mr_email_recipient := Some (recipient_email s)\<rparr>)))"

definition deliver ::
  "Providers \<Rightarrow> int \<Rightarrow> MeetingRecord \<Rightarrow> Session \<Rightarrow> store \<Rightarrow> Session \<times> store" where
  "deliver P record_id db_record s st =
     (if send_email s then
        (let s1 = s\<lparr>status := ''sending_email''\<rparr> in
         (s1\<lparr>status := ''completed''\<rparr>, send_step P record_id db_record s1 st))
      else (s\<lparr>status := ''completed''\<rparr>, st))"

text \<open>The \<^verbatim>\<open>try\<close> block as a whole, and its handler.\<close>

definition process_try ::
  "Providers \<Rightarrow> MeetingSession \<Rightarrow> Session \<Rightarrow> store \<Rightarrow> exn \<times> Session \<times> store + Session \<times> store" where
  "process_try P ms s st =
     (case enrich P s of
        Inl (e, s1) \<Rightarrow> Inl (e, s1, st)
      | Inr (s1, L) \<Rightarrow>
         (case assemble P ms L s1 st of
            Inl x \<Rightarrow> Inl x
          | Inr (s2, st2, pdf, record_id, db_record) \<Rightarrow>
              Inr (deliver P record_id db_record s2 st2)))"

definition process_handled ::
  "Providers \<Rightarrow> MeetingSession \<Rightarrow> Session \<Rightarrow> store \<Rightarrow> Session \<times> store" where
  "process_handled P ms s st =
     (case process_try P ms s st of
        Inl (e, s1, st1) \<Rightarrow> (s1\<lparr>status := ''error'', error := Some e\<rparr>, st1)
      | Inr r \<Rightarrow> r)"

text \<open>
  \<^verbatim>\<open>_process_recording\<close>. Reading \<^verbatim>\<open>meeting_session.audio_file\<close> when the
  session dict holds no MeetingSession raises AttributeError before the
  \<^verbatim>\<open>try\<close> block: the left summand.
\<close>

definition process_recording :: "Providers \<Rightarrow> int \<Rightarrow> Controller \<Rightarrow> exn + Controller" where
  "process_recording P session_id c =
     (case sessions c session_id of
        None \<Rightarrow> Inr c
      | Some s \<Rightarrow>
         (case (case meeting_session s of None \<Rightarrow> None | Some a \<Rightarrow> objects c a) of
            None \<Rightarrow> Inl ''AttributeError: NoneType object has no attribute audio_file''
          | Some ms \<Rightarrow>
              if ms_audio_file ms = None \<or> \<not> audio_file_exists P then
                Inr (c\<lparr>sessions := (sessions c)(session_id \<mapsto>
                          s\<lparr>status := ''error'', error := Some ''No audio file recorded''\<rparr>)\<rparr>)
              else
                (let r = process_handled P ms s (storage c) in
                 Inr (c\<lparr>sessions := (sessions c)(session_id \<mapsto> fst r),
                        storage := snd r\<rparr>))))"


subsection \<open>controller.py: \_run\_session, stop\_session, get\_session\_status\<close>

definition update_session :: "int \<Rightarrow> (Session \<Rightarrow> Session) \<Rightarrow> Controller \<Rightarrow> Controller" where
  "update_session session_id f c =
     (case sessions c session_id of
        None \<Rightarrow> c
      | Some s \<Rightarrow> c\<lparr>sessions := (sessions c)(session_id \<mapsto> f s)\<rparr>)"

text \<open>
  \<^verbatim>\<open>_run_session\<close> from its start to the point where
  \<^verbatim>\<open>MeetingRecorder.start_session\<close> awaits the join: the status is
  \<^verbatim>\<open>joining\<close> and the recorder's session is a new object in state JOINING.
\<close>

definition run_session_joining :: "int \<Rightarrow> Controller \<Rightarrow> Controller" where
  "run_session_joining session_id c =
     (let c0 = c\<lparr>tasks := remove1 session_id (tasks c)\<rparr> in
      (case sessions c0 session_id of
         None \<Rightarrow> c0
       | Some s \<Rightarrow>
          (recorder_begin_join (meeting_url s)
             (update_session session_id (\<lambda>s. s\<lparr>status := ''joining''\<rparr>) c0))
          \<lparr>joining := joining c0 @ [session_id]\<rparr>))"

text \<open>
  \<^verbatim>\<open>_run_session\<close> from the moment the join returns to the first evaluation of
  \<^verbatim>\<open>while self.recorder.is_active\<close>. \<^verbatim>\<open>MeetingRecorder.start_session\<close>
  handles every exception itself and returns the recorder's session; when that is in
  state RECORDING the task sleeps in the loop. (Were there no object to read the state
  from, the AttributeError would reach the handler of \<^verbatim>\<open>_run_session\<close>.)
\<close>

definition run_session_joined :: "StartEnv \<Rightarrow> int \<Rightarrow> Controller \<Rightarrow> Controller" where
  "run_session_joined env session_id c =
     (if session_id \<in> set (joining c) then
        (let c0 = c\<lparr>joining := removeAll session_id (joining c)\<rparr> in
         (case sessions c0 session_id of
            None \<Rightarrow> c0
          | Some s \<Rightarrow>
             (let r = recorder_finish_join env (meeting_url s) c0;
                  c2 = update_session session_id (\<lambda>s. s\<lparr>meeting_session := fst r\<rparr>) (snd r)
              in (case (case fst r of None \<Rightarrow> None | Some a \<Rightarrow> objects c2 a) of
                    None \<Rightarrow>
                      update_session session_id
                        (\<lambda>s. s\<lparr>status := ''error'',
                               error := Some ''AttributeError: NoneType object has no attribute state''\<rparr>)
                        c2
                  | Some ms \<Rightarrow>
                      if ms_state ms = ERROR then
                        update_session session_id
                          (\<lambda>s. s\<lparr>status := ''error'', error := ms_error_message ms\<rparr>) c2
                      else
                        (update_session session_id (\<lambda>s. s\<lparr>status := ''recording''\<rparr>) c2)
                          \<lparr>waiting := waiting c2 @ [session_id]\<rparr>))))
      else c)"

text \<open>
  \<^verbatim>\<open>_run_session\<close> from its start to the wait loop when no other coroutine runs
  while the join is awaited.
\<close>

definition run_session_begin :: "StartEnv \<Rightarrow> int \<Rightarrow> Controller \<Rightarrow> Controller" where
  "run_session_begin env session_id c =
     run_session_joined env session_id (run_session_joining session_id c)"

text \<open>
  \<^verbatim>\<open>_run_session\<close> when its task wakes from \<^verbatim>\<open>asyncio.sleep(5)\<close> in
  the loop: it sleeps again while the recorder is active, and otherwise goes on to
  process the recording, to the end of the method.
\<close>

definition run_session_resume :: "Providers \<Rightarrow> int \<Rightarrow> Controller \<Rightarrow> Controller" where
  "run_session_resume P session_id c =
     (if session_id \<in> set (waiting c) \<and> \<not> is_active c then
        (let c0 = c\<lparr>waiting := removeAll session_id (waiting c)\<rparr>;
             c1 = update_session session_id (\<lambda>s. s\<lparr>status := ''processing''\<rparr>) c0
         in (case process_recording P session_id c1 of
               Inr c2 \<Rightarrow> c2
             | Inl e \<Rightarrow>
                 update_session session_id (\<lambda>s. s\<lparr>status := ''error'', error := Some e\<rparr>) c1))
      else c)"

text \<open>
  \<^verbatim>\<open>stop_session\<close>. The first component is the exception that leaves the method,
  if any: the ValueError for an unknown id, or what \<^verbatim>\<open>end_session\<close> raised.
\<close>

definition stop_session :: "EndEnv \<Rightarrow> int \<Rightarrow> Controller \<Rightarrow> exn option \<times> Controller" where
  "stop_session env session_id c =
     (case sessions c session_id of
        None \<Rightarrow> (Some (''Session '' @ str_int session_id @ '' not found''), c)
      | Some s \<Rightarrow>
         (let r = (if status s = ''recording'' then end_session env c else (None, c)) in
          (case fst r of
             Some e \<Rightarrow> (Some e, snd r)
           | None \<Rightarrow>
               (None, update_session session_id (\<lambda>s. s\<lparr>status := ''stopped''\<rparr>) (snd r)))))"

text \<open>The dict \<^verbatim>\<open>get_session_status\<close> returns.\<close>

record Snapshot =
  snap_session_id :: "int option"
  snap_status :: string
  snap_platform :: "string option"
  snap_start_time :: "int option"
  snap_duration :: "string option"
  transcript_available :: bool
  summary_available :: bool
  snap_pdf_path :: "string option"
  email_sent :: bool

definition get_session_status :: "int \<Rightarrow> Controller \<Rightarrow> Snapshot option" where
  "get_session_status session_id c =
     (case sessions c session_id of
        None \<Rightarrow>
          (if session_id \<le> 0 then None
           else (case storage c session_id of
                   None \<Rightarrow> None
                 | Some r \<Rightarrow>
                     Some \<lparr>snap_session_id = mr_id r,
                           snap_status = ''completed'',
                           snap_platform = Some (mr_platform r),
                           snap_start_time = mr_start_time r,
                           snap_duration = Some (str_int (mr_duration_seconds r) @ ''s''),
                           transcript_available =
                             (case mr_transcript r of None \<Rightarrow> False | Some t \<Rightarrow> t \<noteq> []),
                           summary_available = (mr_summary_json r \<noteq> None),
                           snap_pdf_path = mr_pdf_path r,
                           email_sent = mr_email_sent r\<rparr>))
      | Some s \<Rightarrow>
         (let ms = (case meeting_session s of None \<Rightarrow> None | Some a \<Rightarrow> objects c a) in
          Some \<lparr>snap_session_id = Some session_id,
                snap_status = status s,
                snap_platform = map_option (\<lambda>m. platform_value (ms_platform m)) ms,
                snap_start_time = (case ms of None \<Rightarrow> None | Some m \<Rightarrow> ms_start_time m),
                snap_duration = (case ms of None \<Rightarrow> None | Some m \<Rightarrow> ms_duration_formatted m),
                transcript_available = (transcript s \<noteq> None),
                summary_available = (summary s \<noteq> None),
                snap_pdf_path = pdf_path s,
                email_sent = (status s = ''completed'' \<and> send_email s)\<rparr>))"

text \<open>\<^verbatim>\<open>get_transcript\<close>: the text and the duration are not needed here, only
  whether there is a transcript to return.\<close>

definition get_transcript :: "int \<Rightarrow> Controller \<Rightarrow> string option" where
  "get_transcript session_id c =
     (case (case sessions c session_id of None \<Rightarrow> None | Some s \<Rightarrow> transcript s) of
        Some tr \<Rightarrow> Some (tr_text tr)
      | None \<Rightarrow>
         (case storage c session_id of
            None \<Rightarrow> None
          | Some r \<Rightarrow>
             (case mr_transcript r of
                None \<Rightarrow> None
              | Some t \<Rightarrow> if t \<noteq> [] then Some t else None)))"

subsection \<open>api/server.py\<close>

text \<open>
  A handler returns its JSON body or raises HTTPException with a status code.
  \<open>app\<close> is \<^verbatim>\<open>_app_state["controller"]\<close>.
\<close>

datatype 'a http = Body 'a | HTTPException int string

definition join_meeting_handler ::
  "Controller option \<Rightarrow> string \<Rightarrow> string \<Rightarrow> bool \<Rightarrow> (int \<times> string) http \<times> Controller option" where
  "join_meeting_handler app url email send =
     (case app of
        None \<Rightarrow> (HTTPException 503 ''Controller not initialized'', app)
      | Some c \<Rightarrow>
          (let r = start_session url email send c in
           (Body (fst r, ''joining''), Some (snd r))))"

definition get_meeting_status :: "Controller option \<Rightarrow> int \<Rightarrow> Snapshot http" where
  "get_meeting_status app session_id =
     (case app of
        None \<Rightarrow> HTTPException 503 ''Controller not initialized''
      | Some c \<Rightarrow>
         (case get_session_status session_id c of
            None \<Rightarrow> HTTPException 404 ''Session not found''
          | Some snap \<Rightarrow> Body snap))"

definition stop_meeting ::
  "EndEnv \<Rightarrow> Controller option \<Rightarrow> int \<Rightarrow> (string \<times> int) http \<times> Controller option" where
  "stop_meeting env app session_id =
     (case app of
        None \<Rightarrow> (HTTPException 503 ''Controller not initialized'', app)
      | Some c \<Rightarrow>
         (let r = stop_session env session_id c in
          (case fst r of
             None \<Rightarrow> (Body (''stopped'', session_id), Some (snd r))
           | Some e \<Rightarrow> (HTTPException 500 e, Some (snd r)))))"

definition get_transcript_handler :: "Controller option \<Rightarrow> int \<Rightarrow> string http" where
  "get_transcript_handler app session_id =
     (case app of
        None \<Rightarrow> HTTPException 503 ''Controller not initialized''
      | Some c \<Rightarrow>
         (case get_transcript session_id c of
            None \<Rightarrow> HTTPException 404 ''Transcript not available''
          | Some t \<Rightarrow> Body t))"


subsection \<open>Observations and scenarios\<close>

text \<open>The status string of a registered session, as a status query reads it.\<close>

definition session_status :: "int \<Rightarrow> Controller \<Rightarrow> string option" where
  "session_status session_id c = map_option status (sessions c session_id)"

text \<open>The MeetingSession object a registered session refers to.\<close>

definition session_object :: "int \<Rightarrow> Controller \<Rightarrow> MeetingSession option" where
  "session_object session_id c =
     (case sessions c session_id of
        None \<Rightarrow> None
      | Some s \<Rightarrow> (case meeting_session s of None \<Rightarrow> None | Some a \<Rightarrow> objects c a))"

text \<open>
  The \<^verbatim>\<open>try\<close> block of \<^verbatim>\<open>_process_recording\<close> reaches step 13: no
  exception left steps 2 to 12.
\<close>

definition reaches_delivery :: "Providers \<Rightarrow> MeetingSession \<Rightarrow> Session \<Rightarrow> store \<Rightarrow> bool" where
  "reaches_delivery P ms s st =
     (case enrich P s of
        Inl x \<Rightarrow> False
      | Inr (s1, L) \<Rightarrow> (case assemble P ms L s1 st of Inl x \<Rightarrow> False | Inr y \<Rightarrow> True))"

text \<open>
  \<^verbatim>\<open>_process_recording\<close> for a registered session reaches step 13 and finds
  \<^verbatim>\<open>session["send_email"]\<close> set.
\<close>

definition delivery_attempted :: "Providers \<Rightarrow> int \<Rightarrow> Controller \<Rightarrow> bool" where
  "delivery_attempted P session_id c =
     (case sessions c session_id of
        None \<Rightarrow> False
      | Some s \<Rightarrow>
         (case session_object session_id c of
            None \<Rightarrow> False
          | Some ms \<Rightarrow>
              ms_audio_file ms \<noteq> None \<and> audio_file_exists P \<and>
              reaches_delivery P ms s (storage c) \<and> send_email s))"

text \<open>
  A pass of the loop of \<^verbatim>\<open>_wait_for_admission\<close> that neither returns nor
  raises: the bot is not in the meeting and the page does not say it was denied.
\<close>

definition still_pending :: "Poll \<Rightarrow> bool" where
  "still_pending p =
     (\<not> verify_in_meeting p \<and>
      (case page_content p of Inl e \<Rightarrow> False | Inr content \<Rightarrow> \<not> denied_page content))"

text \<open>The page says that entry was denied, and the bot is not in the meeting.\<close>

definition shows_denial :: "Poll \<Rightarrow> bool" where
  "shows_denial p =
     (\<not> verify_in_meeting p \<and>
      (case page_content p of Inl e \<Rightarrow> False | Inr content \<Rightarrow> denied_page content))"

text \<open>
  The join reaches the waiting room: the browser starts, the link is one of a supported
  platform, the page loads, and the first \<^verbatim>\<open>_verify_in_meeting\<close> fails.
\<close>

definition enters_waiting_room :: "JoinEnv \<Rightarrow> string \<Rightarrow> bool" where
  "enters_waiting_room env url =
     (browser_launch env = Inr () \<and> page_load env = Inr () \<and> \<not> verified env \<and>
      detect_platform url \<noteq> UNKNOWN)"

text \<open>
  No key of \<^verbatim>\<open>self._sessions\<close> is beyond \<^verbatim>\<open>self._session_counter\<close>.
\<close>

definition registry_ok :: "Controller \<Rightarrow> bool" where
  "registry_ok c = (\<forall>k. sessions c k \<noteq> None \<longrightarrow> k \<le> session_counter c)"

text \<open>
  \<^verbatim>\<open>MeetingRecorder.start_session\<close> ends with the recorder's session in state
  RECORDING: the join returns \<open>True\<close> and the audio capture starts (or is running
  already).
\<close>

definition start_succeeds :: "StartEnv \<Rightarrow> string \<Rightarrow> Controller \<Rightarrow> bool" where
  "start_succeeds env url c =
     (join_meeting (config c) (join_env env) url = Inr True \<and>
      (audio_is_recording c \<or> (case audio_device env of Inl e \<Rightarrow> False | Inr f \<Rightarrow> True)))"

text \<open>The recorder refers to a MeetingSession object.\<close>

definition recorder_has_session :: "Controller \<Rightarrow> bool" where
  "recorder_has_session c =
     (case recorder_session c of None \<Rightarrow> False | Some a \<Rightarrow> objects c a \<noteq> None)"

text \<open>
  What can happen to a controller, one event at a time: a call of
  \<^verbatim>\<open>start_session\<close> or \<^verbatim>\<open>stop_session\<close> by a client, a
  \<^verbatim>\<open>_run_session\<close> task starting its join, getting the result of the join, or
  waking in its loop, a monitoring task waking. \<open>run\<close> applies a sequence of events and collects the session ids that the
  calls of \<^verbatim>\<open>start_session\<close> returned.
\<close>

datatype Event =
  Start string string bool
| Joining int
| Joined StartEnv int
| Resume Providers int
| Stop EndEnv int
| Wake Tick

fun step :: "Event \<Rightarrow> Controller \<Rightarrow> int list \<times> Controller" where
  "step (Start url email send) c = ([fst (start_session url email send c)],
                                    snd (start_session url email send c))"
| "step (Joining session_id) c = ([], run_session_joining session_id c)"
| "step (Joined env session_id) c = ([], run_session_joined env session_id c)"
| "step (Resume P session_id) c = ([], run_session_resume P session_id c)"
| "step (Stop env session_id) c = ([], snd (stop_session env session_id c))"
| "step (Wake tk) c = ([], monitor_tick tk c)"

fun run :: "Event list \<Rightarrow> Controller \<Rightarrow> int list \<times> Controller" where
  "run [] c = ([], c)"
| "run (ev # evs) c =
     (let r = step ev c; r' = run evs (snd r) in (fst r @ fst r', snd r'))"

text \<open>
  A run used to exercise the theorems below: default configuration, a Google Meet link,
  a join that is admitted at once, a recording that starts at second 100, and providers
  that all return. The diarizer is not initialised (pyannote is not installed), and the
  meeting memory is.
\<close>

definition default_config :: Config where
  "default_config =
     \<lparr>max_duration_minutes = None, end_detection_interval_seconds = None,
      waiting_room_timeout_seconds = None\<rparr>"

definition meet_url :: string where
  "meet_url = ''https://meet.google.com/abc-defg-hij''"

definition pending_poll :: Poll where
  "pending_poll = \<lparr>verify_in_meeting = False, page_content = Inr ''Asking to join...''\<rparr>"

definition denied_poll :: Poll where
  "denied_poll =
     \<lparr>verify_in_meeting = False, page_content = Inr ''Your request to join was denied''\<rparr>"

definition pending_join :: JoinEnv where
  "pending_join =
     \<lparr>browser_launch = Inr (), page_load = Inr (), verified = False,
      waiting_room = (\<lambda>t. pending_poll)\<rparr>"

definition denied_join :: JoinEnv where
  "denied_join =
     \<lparr>browser_launch = Inr (), page_load = Inr (), verified = False,
      waiting_room = (\<lambda>t. if t < 15 then pending_poll else denied_poll)\<rparr>"

definition late_join :: JoinEnv where
  "late_join =
     \<lparr>browser_launch = Inr (), page_load = Inr (), verified = False,
      waiting_room = (\<lambda>t. if t < 20 then pending_poll
                          else \<lparr>verify_in_meeting = True, page_content = Inr ''In call''\<rparr>)\<rparr>"

definition admitted_join :: JoinEnv where
  "admitted_join =
     \<lparr>browser_launch = Inr (), page_load = Inr (), verified = True,
      waiting_room = (\<lambda>t. pending_poll)\<rparr>"

definition good_start :: StartEnv where
  "good_start =
     \<lparr>join_env = admitted_join, audio_device = Inr ''recordings/meeting_audio.wav'',
      joined_at = 100, monitor_started_at = 100\<rparr>"

definition start_with :: "JoinEnv \<Rightarrow> StartEnv" where
  "start_with j =
     \<lparr>join_env = j, audio_device = Inr ''recordings/meeting_audio.wav'',
      joined_at = 100, monitor_started_at = 100\<rparr>"

definition good_end :: "int \<Rightarrow> EndEnv" where
  "good_end t = \<lparr>stream_stop = Inr (), browser_close = Inr (), ended_at = t\<rparr>"

definition sample_transcript :: TranscriptionResult where
  "sample_transcript =
     \<lparr>tr_text = ''We agreed to ship on Friday.'',
      tr_segments = [\<lparr>ts_start = 0, ts_end = 2, ts_text = ''We agreed to ship on Friday.'',
                      ts_confidence = 1, ts_speaker = None\<rparr>],
      tr_language = ''en'', tr_duration = 2\<rparr>"

definition sample_summary :: MeetingSummary where
  "sample_summary =
     \<lparr>executive_summary = ''Release planning.'', key_discussion_points = [''Release date''],
      decisions_made = [''Ship on Friday''], summary_action_items = [],
      confidence_score = 1, raw_transcript = ''We agreed to ship on Friday.''\<rparr>"

definition sample_mail :: FollowupEmail where
  "sample_mail =
     \<lparr>subject = ''Follow-up'', body_text = ''Thanks.'', body_html = ''<p>Thanks.</p>'',
      recipients_suggested = [], action_items_included = 0\<rparr>"

definition one_speaker :: DiarizationResult where
  "one_speaker =
     \<lparr>d_segments = [\<lparr>sp_speaker = ''Speaker 1'', sp_start = 0, sp_end = 2, sp_text = [],
                      sp_confidence = 1\<rparr>],
      num_speakers = 1, speaker_stats = [(''Speaker 1'', 2)]\<rparr>"

definition good_providers :: Providers where
  "good_providers =
     \<lparr>audio_file_exists = True,
      whisper = Inr sample_transcript,
      diarization_enabled = True, diarizer_initialized = False,
      pyannote = Inr DiarizationResult_default,
      topics_enabled = True, identify_topics = Inr [],
      sentiment_enabled = True, sentiment_body = Inr SentimentResult_default,
      llm_summary = Inr sample_summary,
      actions_enabled = True, extract_body = Inr ActionItemResult_default,
      analytics_enabled = True, metrics_body = Inr MeetingMetrics_default,
      pdf_report = Inr ''reports/meeting_summary.pdf'',
      db_save = Inr 1,
      memory_initialized = True, memory_store = Inr 3,
      followup_enabled = True, followup_llm = Inr sample_mail,
      followup_template = Inr sample_mail,
      smtp_send = Inr (), db_update = Inr ()\<rparr>"

text \<open>
  Session 1 is started, its task runs up to the wait loop, and the monitor ends the
  recording at second 160 because the page shows that the meeting has ended.
\<close>

definition one_minute_config :: Config where
  "one_minute_config =
     \<lparr>max_duration_minutes = Some 1, end_detection_interval_seconds = Some 10,
      waiting_room_timeout_seconds = Some 30\<rparr>"

text \<open>A wake-up of the monitor at which the page does not show the end of the meeting.\<close>

definition quiet_tick :: "int \<Rightarrow> Tick" where
  "quiet_tick t =
     \<lparr>monitor = 0, woke_at = t, meeting_ended = Inr False, end_env = good_end t\<rparr>"

text \<open>The browser fails to close when the recorder leaves the meeting.\<close>

definition failing_close :: "int \<Rightarrow> EndEnv" where
  "failing_close t =
     \<lparr>stream_stop = Inr (),
      browser_close = Inl ''Target page, context or browser has been closed'',
      ended_at = t\<rparr>"

text \<open>Session 1 records under the one-minute configuration, from second 100.\<close>

definition one_minute_run :: Controller where
  "one_minute_run =
     run_session_begin good_start 1
       (snd (start_session meet_url ''ana@example.org'' True (new_controller one_minute_config)))"

text \<open>
  The monitor of that session wakes every 10 seconds; at second 160, with the maximal
  duration reached, the browser fails to close.
\<close>

definition stuck_run :: Controller where
  "stuck_run =
     monitor_meeting
       (map quiet_tick [110, 120, 130, 140, 150] @
        [\<lparr>monitor = 0, woke_at = 160, meeting_ended = Inr False, end_env = failing_close 160\<rparr>])
       one_minute_run"

text \<open>
  Two sessions are started one after the other; both tasks start their join, and then
  each join succeeds: first that of session 1 (\<open>one_joined_run\<close>), then that of
  session 2.
\<close>

definition zoom_url :: string where
  "zoom_url = ''https://zoom.us/j/123456789''"

definition one_joined_run :: Controller where
  "one_joined_run =
     snd (run [Start meet_url ''ana@example.org'' True,
               Start zoom_url ''ben@example.org'' True,
               Joining 1,
               Joining 2,
               Joined good_start 1]
            (new_controller default_config))"

definition two_sessions_run :: Controller where
  "two_sessions_run =
     snd (run [Start meet_url ''ana@example.org'' True,
               Start zoom_url ''ben@example.org'' True,
               Joining 1,
               Joining 2,
               Joined good_start 1,
               Joined good_start 2]
            (new_controller default_config))"

definition started_run :: Controller where
  "started_run =
     snd (start_session meet_url ''ana@example.org'' True (new_controller default_config))"

definition recording_run :: Controller where
  "recording_run = run_session_begin good_start 1 started_run"

definition recorded_run :: Controller where
  "recorded_run =
     monitor_tick
       \<lparr>monitor = 0, woke_at = 160, meeting_ended = Inr True, end_env = good_end 160\<rparr>
       recording_run"

text \<open>Session 1 after its pipeline ran with providers that all return.\<close>

definition completed_run :: Controller where
  "completed_run = run_session_resume good_providers 1 recorded_run"

text \<open>Session 1 after a join that was denied in the waiting room.\<close>

definition failed_run :: Controller where
  "failed_run = run_session_begin (start_with denied_join) 1 started_run"

text \<open>Session 1 is recording and a client stops it at second 130.\<close>

definition stopped_run :: Controller where
  "stopped_run = snd (stop_session (good_end 130) 1 recording_run)"


section \<open>Properties\<close>

subsection \<open>Frame lemmas: what each operation leaves untouched\<close>

lemma update_session_counter [simp]: "session_counter (update_session i f c) = session_counter c"
  by (simp add: update_session_def split: option.splits)

lemma update_object_counter [simp]: "session_counter (update_object a f c) = session_counter c"
  by (simp add: update_object_def split: option.splits)

lemma update_object_sessions [simp]: "sessions (update_object a f c) = sessions c"
  by (simp add: update_object_def split: option.splits)

lemma update_current_counter [simp]: "session_counter (update_current f c) = session_counter c"
  by (simp add: update_current_def split: option.splits)

lemma update_current_sessions [simp]: "sessions (update_current f c) = sessions c"
  by (simp add: update_current_def split: option.splits)

lemma update_session_objects [simp]: "objects (update_session i f c) = objects c"
  by (simp add: update_session_def split: option.splits)

lemma update_session_dom: "(sessions (update_session i f c) k = None) = (sessions c k = None)"
  by (simp add: update_session_def split: option.splits)

lemma update_session_status:
  "session_status k (update_session i f c) =
     (if k = i then map_option (\<lambda>s. status (f s)) (sessions c k) else session_status k c)"
  by (auto simp: update_session_def session_status_def split: option.splits)

lemma update_session_other: "k \<noteq> i \<Longrightarrow> sessions (update_session i f c) k = sessions c k"
  by (simp add: update_session_def split: option.splits)

lemma recorder_begin_join_frame [simp]:
  "session_counter (recorder_begin_join url c) = session_counter c"
  "sessions (recorder_begin_join url c) = sessions c"
  "config (recorder_begin_join url c) = config c"
  "audio_is_recording (recorder_begin_join url c) = audio_is_recording c"
  "joining (recorder_begin_join url c) = joining c"
  "tasks (recorder_begin_join url c) = tasks c"
  by (simp_all add: recorder_begin_join_def Let_def)

lemma recorder_finish_join_frame [simp]:
  "session_counter (snd (recorder_finish_join env url c)) = session_counter c"
  "sessions (snd (recorder_finish_join env url c)) = sessions c"
  by (simp_all add: recorder_finish_join_def Let_def start_recording_def split: sum.splits)

lemma recorder_start_session_counter [simp]:
  "session_counter (snd (recorder_start_session env url c)) = session_counter c"
  by (simp add: recorder_start_session_def)

lemma recorder_start_session_sessions [simp]:
  "sessions (snd (recorder_start_session env url c)) = sessions c"
  by (simp add: recorder_start_session_def)

lemma cancel_monitoring_frame [simp]:
  "session_counter (cancel_monitoring c) = session_counter c"
  "sessions (cancel_monitoring c) = sessions c"
  "recorder_session (cancel_monitoring c) = recorder_session c"
  "objects (cancel_monitoring c) = objects c"
  "config (cancel_monitoring c) = config c"
  "waiting (cancel_monitoring c) = waiting c"
  by (simp_all add: cancel_monitoring_def split: option.splits)

lemma end_session_counter [simp]: "session_counter (snd (end_session env c)) = session_counter c"
  by (simp add: end_session_def Let_def split: option.splits sum.splits)

lemma end_session_sessions [simp]: "sessions (snd (end_session env c)) = sessions c"
  by (simp add: end_session_def Let_def split: option.splits sum.splits)

text \<open>
  The outcome of \<^verbatim>\<open>MeetingRecorder.start_session\<close> once the join has returned,
  read from the object the recorder refers to.
\<close>

lemma recorder_finish_join_state:
  assumes "recorder_session c = Some a" and "objects c a = Some m"
  shows "fst (recorder_finish_join env url c) = Some a \<and>
         (\<exists>ms. objects (snd (recorder_finish_join env url c)) a = Some ms \<and>
               ms_state ms = (if start_succeeds env url c then RECORDING else ERROR))"
  using assms
  by (auto simp: recorder_finish_join_def Let_def start_recording_def update_object_def
                 update_current_def start_succeeds_def split: sum.splits)

lemma recorder_finish_join_failed_message:
  assumes "recorder_session c = Some a" and "objects c a = Some m"
    and "join_meeting (config c) (join_env env) url = Inr False"
  shows "\<exists>ms. objects (snd (recorder_finish_join env url c)) a = Some ms \<and>
              ms_state ms = ERROR \<and> ms_error_message ms = Some ''Failed to join meeting''"
  using assms
  by (auto simp: recorder_finish_join_def Let_def update_object_def update_current_def)

lemma run_session_joined_status:
  assumes "i \<in> set (joining c)" and "sessions c i = Some s"
    and "recorder_session c = Some a" and "objects c a = Some m"
  shows "session_status i (run_session_joined env i c) =
           Some (if start_succeeds env (meeting_url s) c then ''recording'' else ''error'')"
proof -
  let ?c0 = "c\<lparr>joining := removeAll i (joining c)\<rparr>"
  have c0: "recorder_session ?c0 = Some a" "objects ?c0 a = Some m" "sessions ?c0 i = Some s"
    using assms by simp_all
  have ss: "start_succeeds env (meeting_url s) ?c0 = start_succeeds env (meeting_url s) c"
    by (simp add: start_succeeds_def)
  from recorder_finish_join_state[OF c0(1,2), of env "meeting_url s"] ss
  obtain ms where r: "fst (recorder_finish_join env (meeting_url s) ?c0) = Some a"
    and ms: "objects (snd (recorder_finish_join env (meeting_url s) ?c0)) a = Some ms"
    and st: "ms_state ms = (if start_succeeds env (meeting_url s) c then RECORDING else ERROR)"
    by auto
  show ?thesis
    using assms(1) c0(3) r ms st
    by (auto simp: run_session_joined_def Let_def session_status_def update_session_def)
qed

lemma run_session_joined_failed:
  assumes "i \<in> set (joining c)" and "sessions c i = Some s"
    and "recorder_session c = Some a" and "objects c a = Some m"
    and "join_meeting (config c) (join_env env) (meeting_url s) = Inr False"
  shows "session_status i (run_session_joined env i c) = Some ''error'' \<and>
         map_option error (sessions (run_session_joined env i c) i) =
           Some (Some ''Failed to join meeting'')"
proof -
  let ?c0 = "c\<lparr>joining := removeAll i (joining c)\<rparr>"
  have c0: "recorder_session ?c0 = Some a" "objects ?c0 a = Some m" "sessions ?c0 i = Some s"
    "join_meeting (config ?c0) (join_env env) (meeting_url s) = Inr False"
    using assms by simp_all
  have r: "fst (recorder_finish_join env (meeting_url s) ?c0) = Some a"
    using recorder_finish_join_state[OF c0(1,2)] by simp
  from recorder_finish_join_failed_message[OF c0(1,2,4)]
  obtain ms where ms: "objects (snd (recorder_finish_join env (meeting_url s) ?c0)) a = Some ms"
    and st: "ms_state ms = ERROR" "ms_error_message ms = Some ''Failed to join meeting''"
    by auto
  show ?thesis
    using assms(1) c0(3) r ms st
    by (auto simp: run_session_joined_def Let_def session_status_def update_session_def)
qed

text \<open>The state in which a task awaits its join.\<close>

lemma run_session_joining_state:
  assumes "sessions c i = Some s"
  shows "i \<in> set (joining (run_session_joining i c)) \<and>
         sessions (run_session_joining i c) i = Some (s\<lparr>status := ''joining''\<rparr>) \<and>
         recorder_session (run_session_joining i c) = Some (next_addr c) \<and>
         (\<exists>m. objects (run_session_joining i c) (next_addr c) = Some m \<and> ms_state m = JOINING) \<and>
         config (run_session_joining i c) = config c \<and>
         audio_is_recording (run_session_joining i c) = audio_is_recording c"
  using assms
  by (simp add: run_session_joining_def Let_def update_session_def recorder_begin_join_def)

lemma run_session_begin_status:
  assumes "sessions c i = Some s"
  shows "session_status i (run_session_begin env i c) =
           Some (if start_succeeds env (meeting_url s) c then ''recording'' else ''error'')"
proof -
  let ?cj = "run_session_joining i c"
  from run_session_joining_state[OF assms] obtain m where
    j: "i \<in> set (joining ?cj)" "sessions ?cj i = Some (s\<lparr>status := ''joining''\<rparr>)"
       "recorder_session ?cj = Some (next_addr c)" "objects ?cj (next_addr c) = Some m"
       "config ?cj = config c" "audio_is_recording ?cj = audio_is_recording c"
    by auto
  have ss: "start_succeeds env (meeting_url s) ?cj = start_succeeds env (meeting_url s) c"
    using j(5,6) by (simp add: start_succeeds_def)
  show ?thesis
    using run_session_joined_status[OF j(1,2,3,4), of env] ss
    by (simp add: run_session_begin_def)
qed

lemma run_session_begin_failed:
  assumes "sessions c i = Some s"
    and "join_meeting (config c) (join_env env) (meeting_url s) = Inr False"
  shows "session_status i (run_session_begin env i c) = Some ''error'' \<and>
         map_option error (sessions (run_session_begin env i c) i) =
           Some (Some ''Failed to join meeting'')"
proof -
  let ?cj = "run_session_joining i c"
  from run_session_joining_state[OF assms(1)] obtain m where
    j: "i \<in> set (joining ?cj)" "sessions ?cj i = Some (s\<lparr>status := ''joining''\<rparr>)"
       "recorder_session ?cj = Some (next_addr c)" "objects ?cj (next_addr c) = Some m"
       "config ?cj = config c"
    by auto
  have "join_meeting (config ?cj) (join_env env) (meeting_url (s\<lparr>status := ''joining''\<rparr>)) =
          Inr False"
    using assms(2) j(5) by simp
  from run_session_joined_failed[OF j(1,2,3,4) this] show ?thesis
    by (simp add: run_session_begin_def)
qed


lemma process_recording_keys:
  "process_recording P i c = Inr c' \<Longrightarrow>
     session_counter c' = session_counter c \<and> (\<forall>k. (sessions c' k = None) = (sessions c k = None))"
  by (auto simp: process_recording_def Let_def split: option.splits if_splits)

lemma run_session_joining_keys:
  "session_counter (run_session_joining i c) = session_counter c \<and>
   (\<forall>k. (sessions (run_session_joining i c) k = None) = (sessions c k = None))"
  by (auto simp: run_session_joining_def Let_def update_session_dom split: option.splits)

lemma run_session_joined_keys:
  "session_counter (run_session_joined env i c) = session_counter c \<and>
   (\<forall>k. (sessions (run_session_joined env i c) k = None) = (sessions c k = None))"
  by (auto simp: run_session_joined_def Let_def update_session_dom split: option.splits)

lemma run_session_begin_keys:
  "session_counter (run_session_begin env i c) = session_counter c \<and>
   (\<forall>k. (sessions (run_session_begin env i c) k = None) = (sessions c k = None))"
  using run_session_joined_keys[of env i "run_session_joining i c"] run_session_joining_keys[of i c]
  by (simp add: run_session_begin_def)

lemma run_session_resume_keys:
  "session_counter (run_session_resume P i c) = session_counter c \<and>
   (\<forall>k. (sessions (run_session_resume P i c) k = None) = (sessions c k = None))"
proof (cases "process_recording P i
                (update_session i (\<lambda>s. s\<lparr>status := ''processing''\<rparr>)
                   (c\<lparr>waiting := removeAll i (waiting c)\<rparr>))")
  case (Inl e)
  then show ?thesis
    by (simp add: run_session_resume_def Let_def update_session_dom)
next
  case (Inr c2)
  from process_recording_keys[OF Inr] show ?thesis
    using Inr by (simp add: run_session_resume_def Let_def update_session_dom)
qed

lemma stop_session_keys:
  "session_counter (snd (stop_session env i c)) = session_counter c \<and>
   (\<forall>k. (sessions (snd (stop_session env i c)) k = None) = (sessions c k = None))"
  by (auto simp: stop_session_def Let_def update_session_dom split: option.splits)

lemma stop_running_frame [simp]:
  "session_counter (stop_running t c) = session_counter c"
  "sessions (stop_running t c) = sessions c"
  by (simp_all add: stop_running_def)

lemma loop_again_frame [simp]:
  "session_counter (loop_again t st c) = session_counter c"
  "sessions (loop_again t st c) = sessions c"
  by (simp_all add: loop_again_def)

lemma monitor_tick_keys:
  "session_counter (monitor_tick tk c) = session_counter c \<and>
   sessions (monitor_tick tk c) = sessions c"
  by (simp add: monitor_tick_def Let_def split: option.splits)

lemma start_session_facts:
  "fst (start_session url email send c) = session_counter c + 1 \<and>
   session_counter (snd (start_session url email send c)) = session_counter c + 1 \<and>
   sessions (snd (start_session url email send c)) =
     (sessions c)(session_counter c + 1 \<mapsto> new_session (session_counter c + 1) url email send) \<and>
   tasks (snd (start_session url email send c)) = tasks c @ [session_counter c + 1]"
  by (simp add: start_session_def Let_def)

lemma step_registry:
  assumes "registry_ok c"
  shows "registry_ok (snd (step ev c)) \<and> session_counter c \<le> session_counter (snd (step ev c)) \<and>
         (\<forall>i \<in> set (fst (step ev c)). session_counter c < i \<and> i \<le> session_counter (snd (step ev c)))"
proof (cases ev)
  case (Start url email send)
  then show ?thesis using assms
    by (auto simp: registry_ok_def start_session_facts)
next
  case (Joining i)
  then show ?thesis using assms run_session_joining_keys[of i c]
    by (auto simp: registry_ok_def)
next
  case (Joined env i)
  then show ?thesis using assms run_session_joined_keys[of env i c]
    by (auto simp: registry_ok_def)
next
  case (Resume P i)
  then show ?thesis using assms run_session_resume_keys[of P i c]
    by (auto simp: registry_ok_def)
next
  case (Stop env i)
  then show ?thesis using assms stop_session_keys[of env i c]
    by (auto simp: registry_ok_def)
next
  case (Wake tk)
  then show ?thesis using assms monitor_tick_keys[of tk c]
    by (auto simp: registry_ok_def)
qed

lemma run_registry:
  "registry_ok c \<Longrightarrow>
     registry_ok (snd (run evs c)) \<and> session_counter c \<le> session_counter (snd (run evs c)) \<and>
     (\<forall>i \<in> set (fst (run evs c)). session_counter c < i) \<and>
     sorted_wrt (<) (fst (run evs c))"
proof (induction evs arbitrary: c)
  case Nil
  then show ?case by simp
next
  case (Cons ev evs)
  from step_registry[OF Cons.prems, of ev]
  have ok: "registry_ok (snd (step ev c))"
    and le: "session_counter c \<le> session_counter (snd (step ev c))"
    and ids: "\<forall>i \<in> set (fst (step ev c)). session_counter c < i \<and> i \<le> session_counter (snd (step ev c))"
    by auto
  from Cons.IH[OF ok]
  have ok': "registry_ok (snd (run evs (snd (step ev c))))"
    and le': "session_counter (snd (step ev c)) \<le> session_counter (snd (run evs (snd (step ev c))))"
    and ids': "\<forall>i \<in> set (fst (run evs (snd (step ev c)))). session_counter (snd (step ev c)) < i"
    and srt: "sorted_wrt (<) (fst (run evs (snd (step ev c))))"
    by auto
  have one: "sorted_wrt (<) (fst (step ev c))"
    by (cases ev) simp_all
  show ?case
    using ok' le le' ids ids' srt one
    by (fastforce simp: Let_def sorted_wrt_append)
qed

subsection \<open>The steps of \<^verbatim>\<open>_process_recording\<close>\<close>

lemma enrich_send_email:
  "enrich P s = Inr (s1, L) \<Longrightarrow> send_email s1 = send_email s \<and> error s1 = error s"
  by (auto simp: enrich_def Let_def split: sum.splits option.splits if_splits)

lemma memory_step_send_email:
  "memory_step P s = Inr s1 \<Longrightarrow> send_email s1 = send_email s \<and> error s1 = error s \<and> db_record_id s1 = db_record_id s"
  by (auto simp: memory_step_def Let_def split: sum.splits if_splits)

lemma assemble_send_email:
  "assemble P ms L s st = Inr (s1, st1, pdf, rid, r) \<Longrightarrow>
     send_email s1 = send_email s \<and> error s1 = error s"
  by (auto simp: assemble_def Let_def split: sum.splits prod.splits dest!: memory_step_send_email)

lemma assemble_record:
  "assemble P ms L s st = Inr (s1, st1, pdf, rid, r) \<Longrightarrow>
     db_record_id s1 = Some rid \<and> (\<exists>r'. st1 rid = Some r' \<and> \<not> mr_email_sent r')"
  by (auto simp: assemble_def Let_def make_db_record_def split: sum.splits prod.splits
           dest!: memory_step_send_email)

lemma deliver_completed:
  "status (fst (deliver P rid r s st)) = ''completed'' \<and>
   error (fst (deliver P rid r s st)) = error s \<and>
   send_email (fst (deliver P rid r s st)) = send_email s \<and>
   db_record_id (fst (deliver P rid r s st)) = db_record_id s"
  by (simp add: deliver_def Let_def)

lemma deliver_smtp_failure:
  "smtp_send P = Inl e \<Longrightarrow> snd (deliver P rid r s st) = st"
  by (simp add: deliver_def send_step_def Let_def)

lemma process_handled_delivery:
  assumes "reaches_delivery P ms s st"
  shows "status (fst (process_handled P ms s st)) = ''completed'' \<and>
         error (fst (process_handled P ms s st)) = error s \<and>
         send_email (fst (process_handled P ms s st)) = send_email s"
proof -
  from assms obtain s1 L where e: "enrich P s = Inr (s1, L)"
    by (auto simp: reaches_delivery_def split: sum.splits)
  with assms obtain s2 st2 pdf rid r where a: "assemble P ms L s1 st = Inr (s2, st2, pdf, rid, r)"
    by (auto simp: reaches_delivery_def split: sum.splits)
  have "process_handled P ms s st = deliver P rid r s2 st2"
    using e a by (simp add: process_handled_def process_try_def)
  then show ?thesis
    using deliver_completed[of P rid r s2 st2] enrich_send_email[OF e] assemble_send_email[OF a]
    by simp
qed

lemma process_handled_unsent_record:
  assumes "reaches_delivery P ms s st" and "smtp_send P = Inl e"
  shows "\<exists>rid r. db_record_id (fst (process_handled P ms s st)) = Some rid \<and>
               snd (process_handled P ms s st) rid = Some r \<and> \<not> mr_email_sent r"
proof -
  from assms obtain s1 L where e: "enrich P s = Inr (s1, L)"
    by (auto simp: reaches_delivery_def split: sum.splits)
  with assms obtain s2 st2 pdf rid r where a: "assemble P ms L s1 st = Inr (s2, st2, pdf, rid, r)"
    by (auto simp: reaches_delivery_def split: sum.splits)
  have "process_handled P ms s st = deliver P rid r s2 st2"
    using e a by (simp add: process_handled_def process_try_def)
  then show ?thesis
    using deliver_completed[of P rid r s2 st2] deliver_smtp_failure[OF assms(2), of rid r s2 st2]
      assemble_record[OF a]
    by auto
qed

subsection \<open>Delivery failures\<close>

text \<open>
  Claim C8. When \<^verbatim>\<open>_process_recording\<close> reaches the e-mail step of a session
  that asked for delivery and \<^verbatim>\<open>send_summary\<close> raises, the method returns
  normally, the session's status is \<^verbatim>\<open>completed\<close>, and its
  \<^verbatim>\<open>error\<close> entry is what it was before: the handler of the inner
  \<^verbatim>\<open>try\<close> block only logs.
\<close>

theorem email_failure_still_completed:
  assumes "delivery_attempted P session_id c" and "smtp_send P = Inl e"
  shows "\<exists>c'. process_recording P session_id c = Inr c' \<and>
              session_status session_id c' = Some ''completed'' \<and>
              map_option error (sessions c' session_id) = map_option error (sessions c session_id)"
proof -
  from assms(1) obtain s ms where s: "sessions c session_id = Some s"
    and ms: "session_object session_id c = Some ms"
    and audio: "ms_audio_file ms \<noteq> None" "audio_file_exists P"
    and reach: "reaches_delivery P ms s (storage c)"
    by (auto simp: delivery_attempted_def split: option.splits)
  show ?thesis
    using s ms audio process_handled_delivery[OF reach]
    by (auto simp: process_recording_def session_object_def session_status_def Let_def
             split: option.splits)
qed

theorem email_failure_still_completed_witness:
  "(case process_recording (good_providers\<lparr>smtp_send := Inl ''SMTPAuthenticationError''\<rparr>) 1
           (update_session 1 (\<lambda>s. s\<lparr>status := ''processing''\<rparr>) recorded_run) of
      Inl e \<Rightarrow> None
    | Inr c' \<Rightarrow> session_status 1 c') = Some ''completed''"
proof -
  let ?P = "good_providers\<lparr>smtp_send := Inl ''SMTPAuthenticationError''\<rparr>"
  let ?c = "update_session 1 (\<lambda>s. s\<lparr>status := ''processing''\<rparr>) recorded_run"
  have h1: "delivery_attempted ?P 1 ?c" by code_simp
  have h2: "smtp_send ?P = Inl ''SMTPAuthenticationError''" by simp
  show ?thesis using email_failure_still_completed[OF h1 h2] by auto
qed

subsection \<open>The status snapshot\<close>

text \<open>
  Claim C10. For a session held in \<^verbatim>\<open>self._sessions\<close>, the field
  \<^verbatim>\<open>email_sent\<close> of the snapshot is true exactly when the session's status is
  \<^verbatim>\<open>completed\<close> and \<^verbatim>\<open>send_email\<close> was requested. It says nothing about
  the delivery: when \<^verbatim>\<open>send_summary\<close> raised and the exception was swallowed, the
  snapshot still reports true, while the database record of the same meeting has
  \<^verbatim>\<open>email_sent\<close> false.
\<close>

theorem email_sent_reports_request:
  "(sessions c session_id \<noteq> None \<longrightarrow>
      map_option email_sent (get_session_status session_id c) =
        Some (session_status session_id c = Some ''completed'' \<and>
              map_option send_email (sessions c session_id) = Some True)) \<and>
   (delivery_attempted P session_id c \<and> smtp_send P = Inl e \<longrightarrow>
      (\<exists>c'. process_recording P session_id c = Inr c' \<and>
           map_option email_sent (get_session_status session_id c') = Some True \<and>
           (\<exists>rid. map_option db_record_id (sessions c' session_id) = Some (Some rid) \<and>
                  map_option mr_email_sent (storage c' rid) = Some False)))"
proof (intro conjI impI)
  assume "sessions c session_id \<noteq> None"
  then show "map_option email_sent (get_session_status session_id c) =
        Some (session_status session_id c = Some ''completed'' \<and>
              map_option send_email (sessions c session_id) = Some True)"
    by (auto simp: get_session_status_def session_status_def Let_def)
next
  assume h: "delivery_attempted P session_id c \<and> smtp_send P = Inl e"
  then obtain s0 ms where s0: "sessions c session_id = Some s0"
    and ms: "session_object session_id c = Some ms"
    and audio: "ms_audio_file ms \<noteq> None" "audio_file_exists P"
    and reach: "reaches_delivery P ms s0 (storage c)"
    and send: "send_email s0"
    by (auto simp: delivery_attempted_def split: option.splits)
  let ?r = "process_handled P ms s0 (storage c)"
  let ?c' = "c\<lparr>sessions := (sessions c)(session_id \<mapsto> fst ?r), storage := snd ?r\<rparr>"
  have pr: "process_recording P session_id c = Inr ?c'"
    using s0 ms audio
    by (auto simp: process_recording_def session_object_def Let_def split: option.splits)
  from process_handled_unsent_record[OF reach] h
  obtain rid r where rec: "db_record_id (fst ?r) = Some rid" "snd ?r rid = Some r" "\<not> mr_email_sent r"
    by auto
  have "map_option email_sent (get_session_status session_id ?c') = Some True \<and>
        map_option db_record_id (sessions ?c' session_id) = Some (Some rid) \<and>
        map_option mr_email_sent (storage ?c' rid) = Some False"
    using rec process_handled_delivery[OF reach] send
    by (simp add: get_session_status_def Let_def)
  with pr show "\<exists>c'. process_recording P session_id c = Inr c' \<and>
           map_option email_sent (get_session_status session_id c') = Some True \<and>
           (\<exists>rid. map_option db_record_id (sessions c' session_id) = Some (Some rid) \<and>
                  map_option mr_email_sent (storage c' rid) = Some False)"
    by blast
qed

theorem email_sent_reports_request_witness:
  "(case process_recording (good_providers\<lparr>smtp_send := Inl ''SMTPAuthenticationError''\<rparr>) 1
           (update_session 1 (\<lambda>s. s\<lparr>status := ''processing''\<rparr>) recorded_run) of
      Inl e \<Rightarrow> None
    | Inr c' \<Rightarrow> map_option email_sent (get_session_status 1 c')) = Some True \<and>
   map_option email_sent (get_session_status 1 recorded_run) = Some False"
proof -
  let ?P = "good_providers\<lparr>smtp_send := Inl ''SMTPAuthenticationError''\<rparr>"
  let ?c = "update_session 1 (\<lambda>s. s\<lparr>status := ''processing''\<rparr>) recorded_run"
  have h1: "delivery_attempted ?P 1 ?c \<and> smtp_send ?P = Inl ''SMTPAuthenticationError''"
    by code_simp
  have h2: "sessions recorded_run 1 \<noteq> None"
    by code_simp
  have h3: "session_status 1 recorded_run = Some ''recording''"
    by code_simp
  from email_sent_reports_request[of ?c 1 ?P "''SMTPAuthenticationError''"] h1
  have a: "(case process_recording ?P 1 ?c of
              Inl e \<Rightarrow> None
            | Inr c' \<Rightarrow> map_option email_sent (get_session_status 1 c')) = Some True"
    by auto
  from email_sent_reports_request[of recorded_run 1 ?P "''SMTPAuthenticationError''"] h2 h3
  have b: "map_option email_sent (get_session_status 1 recorded_run) = Some False"
    by simp
  show ?thesis using a b by simp
qed

subsection \<open>Starting a session\<close>

lemma registry_ok_new: "registry_ok (new_controller cfg)"
  by (simp add: registry_ok_def new_controller_def)

text \<open>
  Claim C7, as stated, says that \<^verbatim>\<open>start_session\<close> registers the session in
  state Joining. It registers it with status \<^verbatim>\<open>starting\<close>; the status
  \<^verbatim>\<open>joining\<close> is written later, by the task, when it first runs.
\<close>

theorem start_session_registers_starting:
  "session_status 1
     (snd (start_session meet_url ''ana@example.org'' True (new_controller default_config))) =
     Some ''starting'' \<and>
   session_status 1
     (snd (start_session meet_url ''ana@example.org'' True (new_controller default_config))) \<noteq>
     Some ''joining''"
  by code_simp

text \<open>
  Claim C7, amended. In a controller whose registry holds no key beyond the counter,
  \<^verbatim>\<open>start_session\<close> returns the counter plus one, an id not in the registry
  before; it registers the session with status \<^verbatim>\<open>starting\<close>, appends the
  driving task to the created tasks and touches nothing of the recorder (it has no
  failure path and does not wait for the join); whatever happens afterwards, the ids
  returned by later calls are larger and strictly increasing; and a join that does not
  succeed shows as status \<^verbatim>\<open>error\<close> in the status query made after the task
  ran.
\<close>

theorem start_session_fresh_id:
  assumes "registry_ok c"
  shows "fst (start_session url email send c) = session_counter c + 1 \<and>
         sessions c (fst (start_session url email send c)) = None \<and>
         session_status (fst (start_session url email send c))
           (snd (start_session url email send c)) = Some ''starting'' \<and>
         tasks (snd (start_session url email send c)) =
           tasks c @ [fst (start_session url email send c)] \<and>
         objects (snd (start_session url email send c)) = objects c \<and>
         recorder_session (snd (start_session url email send c)) = recorder_session c \<and>
         (\<forall>evs. sorted_wrt (<)
            (fst (start_session url email send c) #
             fst (run evs (snd (start_session url email send c))))) \<and>
         (\<forall>env. \<not> start_succeeds env url (snd (start_session url email send c)) \<longrightarrow>
            map_option snap_status
              (get_session_status (fst (start_session url email send c))
                 (run_session_begin env (fst (start_session url email send c))
                    (snd (start_session url email send c)))) = Some ''error'')"
proof -
  let ?i = "session_counter c + 1"
  let ?c' = "snd (start_session url email send c)"
  have i: "fst (start_session url email send c) = ?i"
    by (simp add: start_session_facts)
  have fresh: "sessions c ?i = None"
  proof (rule ccontr)
    assume "sessions c ?i \<noteq> None"
    moreover from assms have "sessions c ?i \<noteq> None \<longrightarrow> ?i \<le> session_counter c"
      unfolding registry_ok_def by blast
    ultimately have "?i \<le> session_counter c" by blast
    then show False by simp
  qed
  have reg: "sessions ?c' ?i = Some (new_session ?i url email send)"
    by (simp add: start_session_facts)
  have st: "session_status ?i ?c' = Some ''starting''"
    using reg by (simp add: session_status_def new_session_def)
  have ok': "registry_ok ?c'" and cnt: "session_counter ?c' = ?i"
    using assms by (auto simp: registry_ok_def start_session_facts)
  have later: "sorted_wrt (<) (?i # fst (run evs ?c'))" for evs
    using run_registry[OF ok', of evs] cnt by auto
  have fail: "map_option snap_status
                (get_session_status ?i (run_session_begin env ?i ?c')) = Some ''error''"
    if "\<not> start_succeeds env url ?c'" for env
  proof -
    have "session_status ?i (run_session_begin env ?i ?c') = Some ''error''"
      using run_session_begin_status[OF reg, of env] that by (simp add: new_session_def)
    then show ?thesis
      by (auto simp: get_session_status_def session_status_def Let_def split: option.splits)
  qed
  show ?thesis
    using i fresh st later fail
    by (simp add: start_session_def Let_def)
qed

theorem start_session_fresh_id_witness:
  "registry_ok (new_controller default_config) \<and>
   fst (start_session meet_url ''ana@example.org'' True (new_controller default_config)) = 1 \<and>
   \<not> start_succeeds (start_with denied_join) meet_url
       (snd (start_session meet_url ''ana@example.org'' True (new_controller default_config))) \<and>
   map_option snap_status
     (get_session_status 1
        (run_session_begin (start_with denied_join) 1
           (snd (start_session meet_url ''ana@example.org'' True
                  (new_controller default_config))))) = Some ''error''"
proof -
  let ?c = "new_controller default_config"
  let ?r = "start_session meet_url ''ana@example.org'' True ?c"
  have h1: "registry_ok ?c" by (rule registry_ok_new)
  have h2: "\<not> start_succeeds (start_with denied_join) meet_url (snd ?r)"
    by code_simp
  have h3: "session_counter ?c + 1 = 1" by (simp add: new_controller_def)
  note T = start_session_fresh_id[OF h1, of meet_url "''ana@example.org''" True]
  from T h3 have a: "fst ?r = 1" by simp
  from T have "\<forall>env. \<not> start_succeeds env meet_url (snd ?r) \<longrightarrow>
            map_option snap_status
              (get_session_status (fst ?r) (run_session_begin env (fst ?r) (snd ?r))) =
              Some ''error''"
    by (elim conjE)
  with h2 a have b: "map_option snap_status
     (get_session_status 1 (run_session_begin (start_with denied_join) 1 (snd ?r))) =
     Some ''error''"
    by metis
  show ?thesis using h1 h2 a b by (intro conjI)
qed

subsection \<open>Waiting for admission\<close>

lemma wait_loop_pending:
  "(\<And>t. still_pending (page t)) \<Longrightarrow>
     fst (wait_loop timeout page elapsed) = Inr False \<and>
     timeout \<le> snd (wait_loop timeout page elapsed) \<and>
     elapsed \<le> snd (wait_loop timeout page elapsed) \<and>
     (elapsed < timeout \<longrightarrow> snd (wait_loop timeout page elapsed) < timeout + check_interval) \<and>
     (elapsed \<ge> timeout \<longrightarrow> snd (wait_loop timeout page elapsed) = elapsed) \<and>
     (snd (wait_loop timeout page elapsed) - elapsed) mod check_interval = 0"
proof (induction timeout page elapsed rule: wait_loop.induct)
  case (1 timeout page elapsed)
  show ?case
  proof (cases "elapsed < timeout")
    case False
    then have "wait_loop timeout page elapsed = (Inr False, elapsed)"
      by (subst wait_loop.simps) simp
    with False show ?thesis by simp
  next
    case True
    let ?e = "elapsed + check_interval"
    from "1.prems"[of ?e] obtain content where
      p: "\<not> verify_in_meeting (page ?e)" "page_content (page ?e) = Inr content"
         "\<not> denied_page content"
      by (auto simp: still_pending_def split: sum.splits)
    have unfold: "wait_loop timeout page elapsed = wait_loop timeout page ?e"
      using True p by (subst wait_loop.simps) (simp add: Let_def)
    have ih: "fst (wait_loop timeout page ?e) = Inr False \<and>
     timeout \<le> snd (wait_loop timeout page ?e) \<and>
     ?e \<le> snd (wait_loop timeout page ?e) \<and>
     (?e < timeout \<longrightarrow> snd (wait_loop timeout page ?e) < timeout + check_interval) \<and>
     (?e \<ge> timeout \<longrightarrow> snd (wait_loop timeout page ?e) = ?e) \<and>
     (snd (wait_loop timeout page ?e) - ?e) mod check_interval = 0"
      using "1.IH"[OF True refl p(1) p(2) p(3)] "1.prems" by simp
    have m: "(snd (wait_loop timeout page ?e) - elapsed) mod check_interval = 0"
    proof -
      from ih have "(snd (wait_loop timeout page ?e) - ?e) mod check_interval = 0" by blast
      then show ?thesis unfolding check_interval_def by presburger
    qed
    show ?thesis
      using True ih m unfold by (auto simp: check_interval_def)
  qed
qed


lemma wait_loop_first_answer:
  "(\<And>j. j < k \<Longrightarrow> still_pending (page (elapsed + check_interval * (int j + 1)))) \<Longrightarrow>
   elapsed + check_interval * int k < timeout \<Longrightarrow>
   wait_loop timeout page elapsed =
     (let t = elapsed + check_interval * (int k + 1) in
      if verify_in_meeting (page t) then (Inr True, t)
      else (case page_content (page t) of
              Inl e \<Rightarrow> (Inl e, t)
            | Inr content \<Rightarrow>
                (if denied_page content then (Inr False, t) else wait_loop timeout page t)))"
proof (induction k arbitrary: elapsed)
  case 0
  then have "elapsed < timeout" by simp
  then show ?case
    by (subst wait_loop.simps) (simp add: Let_def)
next
  case (Suc k)
  let ?e = "elapsed + check_interval"
  have lt: "elapsed < timeout"
    using Suc.prems(2) by (simp add: check_interval_def)
  from Suc.prems(1)[of 0] obtain content where
    p: "\<not> verify_in_meeting (page ?e)" "page_content (page ?e) = Inr content"
       "\<not> denied_page content"
    by (auto simp: still_pending_def split: sum.splits)
  have unfold: "wait_loop timeout page elapsed = wait_loop timeout page ?e"
    using lt p by (subst wait_loop.simps) (simp add: Let_def)
  have pend: "still_pending (page (?e + check_interval * (int j + 1)))" if "j < k" for j
  proof -
    have eq: "?e + check_interval * (int j + 1) = elapsed + check_interval * (int (Suc j) + 1)"
      by (simp add: algebra_simps)
    from that have "Suc j < Suc k" by simp
    from Suc.prems(1)[OF this] show ?thesis
      by (subst eq)
  qed
  have lt': "?e + check_interval * int k < timeout"
    using Suc.prems(2) by (simp add: algebra_simps)
  have t: "?e + check_interval * (int k + 1) = elapsed + check_interval * (int (Suc k) + 1)"
    by (simp add: algebra_simps)
  show ?case
    using Suc.IH[of ?e, OF pend lt'] unfold t by (simp add: Let_def)
qed

lemma join_meeting_waiting_room:
  "enters_waiting_room env url \<Longrightarrow>
     join_meeting cfg env url =
       Inr (case fst (wait_for_admission cfg env) of Inl e \<Rightarrow> False | Inr b \<Rightarrow> b)"
  by (cases "detect_platform url")
     (auto simp: enters_waiting_room_def join_meeting_def join_platform_def)

text \<open>
  Claim C5, as stated, gives the two failures of the waiting room different reasons and
  says that the room is polled at the end-detection interval. In the code a timeout and a
  denial both make \<^verbatim>\<open>join_meeting\<close> return \<open>False\<close>, so both sessions end
  with the same message, and the room is polled every 5 seconds: with the default
  end-detection interval of 10 seconds a denial shown from second 15 on is seen at
  second 15.
\<close>

theorem admission_failures_share_one_message:
  "map_option error (sessions (run_session_begin (start_with pending_join) 1 started_run) 1) =
     Some (Some ''Failed to join meeting'') \<and>
   map_option error (sessions (run_session_begin (start_with denied_join) 1 started_run) 1) =
     Some (Some ''Failed to join meeting'') \<and>
   end_detection_interval (config started_run) = 10 \<and>
   wait_for_admission (config started_run) denied_join = (Inr False, 15)"
  by code_simp

text \<open>
  Claim C5, amended. For a session whose join reaches the waiting room, with
  \<open>T\<close> the configured \<^verbatim>\<open>waiting_room_timeout_seconds\<close> and polls every
  5 seconds (\<^verbatim>\<open>check_interval\<close>, a constant, not the end-detection interval):
  \<^item> if admission stays pending for ever, \<^verbatim>\<open>_wait_for_admission\<close> returns
    \<open>False\<close> when its counter of slept seconds is a multiple of 5 that is at least
    \<open>T\<close>, and less than \<open>T + 5\<close> when \<open>T\<close> is positive: not before the timeout;
  \<^item> if the page shows a denial at the first poll that is not pending, it returns
    \<open>False\<close> at that poll;
  \<^item> in both cases the session gets status \<^verbatim>\<open>error\<close> with the one message
    \<^verbatim>\<open>Failed to join meeting\<close>;
  \<^item> if the bot is found in the meeting at the first poll that is not pending, it
    returns \<open>True\<close> at that poll, and the session gets status \<^verbatim>\<open>recording\<close>
    provided the audio capture starts.
\<close>

theorem admission_wait_outcomes:
  assumes "map_option meeting_url (sessions c i) = Some url"
    and "enters_waiting_room (join_env env) url"
  shows
    "((\<forall>t. still_pending (waiting_room (join_env env) t)) \<longrightarrow>
        fst (wait_for_admission (config c) (join_env env)) = Inr False \<and>
        waiting_room_timeout (config c) \<le> snd (wait_for_admission (config c) (join_env env)) \<and>
        (0 < waiting_room_timeout (config c) \<longrightarrow>
           snd (wait_for_admission (config c) (join_env env)) <
             waiting_room_timeout (config c) + check_interval) \<and>
        snd (wait_for_admission (config c) (join_env env)) mod check_interval = 0 \<and>
        session_status i (run_session_begin env i c) = Some ''error'' \<and>
        map_option error (sessions (run_session_begin env i c) i) =
          Some (Some ''Failed to join meeting'')) \<and>
     (\<forall>k. (\<forall>j<k. still_pending (waiting_room (join_env env) (check_interval * (int j + 1)))) \<and>
          check_interval * int k < waiting_room_timeout (config c) \<and>
          shows_denial (waiting_room (join_env env) (check_interval * (int k + 1))) \<longrightarrow>
        wait_for_admission (config c) (join_env env) =
          (Inr False, check_interval * (int k + 1)) \<and>
        session_status i (run_session_begin env i c) = Some ''error'' \<and>
        map_option error (sessions (run_session_begin env i c) i) =
          Some (Some ''Failed to join meeting'')) \<and>
     (\<forall>k. (\<forall>j<k. still_pending (waiting_room (join_env env) (check_interval * (int j + 1)))) \<and>
          check_interval * int k < waiting_room_timeout (config c) \<and>
          verify_in_meeting (waiting_room (join_env env) (check_interval * (int k + 1))) \<longrightarrow>
        wait_for_admission (config c) (join_env env) =
          (Inr True, check_interval * (int k + 1)) \<and>
        session_status i (run_session_begin env i c) =
          Some (if audio_is_recording c \<or> (\<exists>f. audio_device env = Inr f)
                then ''recording'' else ''error''))"
proof -
  from assms(1) obtain s where s: "sessions c i = Some s" and url: "meeting_url s = url"
    by auto
  let ?w = "wait_for_admission (config c) (join_env env)"
  let ?T = "waiting_room_timeout (config c)"
  have jm: "join_meeting (config c) (join_env env) (meeting_url s) =
              Inr (case fst ?w of Inl e \<Rightarrow> False | Inr b \<Rightarrow> b)"
    using join_meeting_waiting_room[OF assms(2)] url by simp
  have A: "fst ?w = Inr False \<and> ?T \<le> snd ?w \<and> (0 < ?T \<longrightarrow> snd ?w < ?T + check_interval) \<and>
           snd ?w mod check_interval = 0 \<and>
           session_status i (run_session_begin env i c) = Some ''error'' \<and>
           map_option error (sessions (run_session_begin env i c) i) =
             Some (Some ''Failed to join meeting'')"
    if pend: "\<forall>t. still_pending (waiting_room (join_env env) t)"
  proof -
    from pend have "\<And>t. still_pending (waiting_room (join_env env) t)" by blast
    from wait_loop_pending[where timeout = ?T and elapsed = 0 and page = "waiting_room (join_env env)", OF this]
    have w: "fst ?w = Inr False" "?T \<le> snd ?w" "0 < ?T \<longrightarrow> snd ?w < ?T + check_interval"
      "snd ?w mod check_interval = 0"
      by (simp_all add: wait_for_admission_def)
    from jm w(1) have "join_meeting (config c) (join_env env) (meeting_url s) = Inr False"
      by simp
    from run_session_begin_failed[OF s this] w show ?thesis by simp
  qed
  have first: "?w =
     (let t = check_interval * (int k + 1) in
      if verify_in_meeting (waiting_room (join_env env) t) then (Inr True, t)
      else (case page_content (waiting_room (join_env env) t) of
              Inl e \<Rightarrow> (Inl e, t)
            | Inr content \<Rightarrow>
                (if denied_page content then (Inr False, t)
                 else wait_loop ?T (waiting_room (join_env env)) t)))"
    if "\<forall>j<k. still_pending (waiting_room (join_env env) (check_interval * (int j + 1)))"
      and "check_interval * int k < ?T" for k
    using wait_loop_first_answer[where k = k and page = "waiting_room (join_env env)"
            and elapsed = 0 and timeout = ?T] that
    by (simp add: wait_for_admission_def)
  have B: "?w = (Inr False, check_interval * (int k + 1)) \<and>
        session_status i (run_session_begin env i c) = Some ''error'' \<and>
        map_option error (sessions (run_session_begin env i c) i) =
          Some (Some ''Failed to join meeting'')"
    if h: "(\<forall>j<k. still_pending (waiting_room (join_env env) (check_interval * (int j + 1)))) \<and>
          check_interval * int k < ?T \<and>
          shows_denial (waiting_room (join_env env) (check_interval * (int k + 1)))" for k
  proof -
    from h first[of k] have w: "?w = (Inr False, check_interval * (int k + 1))"
      by (auto simp: shows_denial_def Let_def split: sum.splits)
    with jm have "join_meeting (config c) (join_env env) (meeting_url s) = Inr False"
      by simp
    from run_session_begin_failed[OF s this] w show ?thesis by simp
  qed
  have C: "?w = (Inr True, check_interval * (int k + 1)) \<and>
        session_status i (run_session_begin env i c) =
          Some (if audio_is_recording c \<or> (\<exists>f. audio_device env = Inr f)
                then ''recording'' else ''error'')"
    if h: "(\<forall>j<k. still_pending (waiting_room (join_env env) (check_interval * (int j + 1)))) \<and>
          check_interval * int k < ?T \<and>
          verify_in_meeting (waiting_room (join_env env) (check_interval * (int k + 1)))" for k
  proof -
    from h first[of k] have w: "?w = (Inr True, check_interval * (int k + 1))"
      by (simp add: Let_def)
    with jm have "join_meeting (config c) (join_env env) (meeting_url s) = Inr True"
      by simp
    then have "start_succeeds env (meeting_url s) c =
                 (audio_is_recording c \<or> (\<exists>f. audio_device env = Inr f))"
      by (auto simp: start_succeeds_def split: sum.splits)
    with run_session_begin_status[OF s, of env] w show ?thesis by simp
  qed
  show ?thesis using A B C by blast
qed


theorem admission_wait_outcomes_witness:
  "snd (wait_for_admission (config started_run) pending_join) = 300 \<and>
   session_status 1 (run_session_begin (start_with pending_join) 1 started_run) = Some ''error'' \<and>
   wait_for_admission (config started_run) denied_join = (Inr False, 15) \<and>
   session_status 1 (run_session_begin (start_with denied_join) 1 started_run) = Some ''error'' \<and>
   wait_for_admission (config started_run) late_join = (Inr True, 20) \<and>
   session_status 1 (run_session_begin (start_with late_join) 1 started_run) = Some ''recording''"
proof -
  have url: "map_option meeting_url (sessions started_run 1) = Some meet_url"
    by code_simp
  have T: "waiting_room_timeout (config started_run) = 300"
    by code_simp
  have pp: "still_pending pending_poll"
    by code_simp
  have e1: "enters_waiting_room (join_env (start_with pending_join)) meet_url"
    and e2: "enters_waiting_room (join_env (start_with denied_join)) meet_url"
    and e3: "enters_waiting_room (join_env (start_with late_join)) meet_url"
    by code_simp+
  have w1: "waiting_room (join_env (start_with pending_join)) t = pending_poll" for t
    by (simp add: start_with_def pending_join_def)
  have w2: "waiting_room (join_env (start_with denied_join)) t =
              (if t < 15 then pending_poll else denied_poll)" for t
    by (simp add: start_with_def denied_join_def)
  have w3: "waiting_room (join_env (start_with late_join)) t =
              (if t < 20 then pending_poll
               else \<lparr>verify_in_meeting = True, page_content = Inr ''In call''\<rparr>)" for t
    by (simp add: start_with_def late_join_def)
  have j1: "join_env (start_with pending_join) = pending_join"
    and j2: "join_env (start_with denied_join) = denied_join"
    and j3: "join_env (start_with late_join) = late_join"
    by (simp_all add: start_with_def)
  have audio: "\<exists>f. audio_device (start_with late_join) = Inr f"
    by (simp add: start_with_def)
  have a1: "\<forall>t. still_pending (waiting_room (join_env (start_with pending_join)) t)"
    using pp w1 by simp
  note R1 = admission_wait_outcomes[OF url e1, THEN conjunct1, THEN mp, OF a1]
  have r1: "snd (wait_for_admission (config started_run) pending_join) = 300"
  proof -
    from R1 T j1 have "300 \<le> snd (wait_for_admission (config started_run) pending_join)"
      "snd (wait_for_admission (config started_run) pending_join) < 300 + 5"
      "snd (wait_for_admission (config started_run) pending_join) mod 5 = 0"
      by (simp_all add: check_interval_def)
    then show ?thesis by presburger
  qed
  have a2: "(\<forall>j<2. still_pending (waiting_room (join_env (start_with denied_join))
                        (check_interval * (int j + 1)))) \<and>
            check_interval * int 2 < waiting_room_timeout (config started_run) \<and>
            shows_denial (waiting_room (join_env (start_with denied_join))
                            (check_interval * (int 2 + 1)))"
  proof (intro conjI allI impI)
    fix j :: nat assume "j < 2"
    then have "check_interval * (int j + 1) < 15" by (simp add: check_interval_def)
    then show "still_pending (waiting_room (join_env (start_with denied_join))
                                (check_interval * (int j + 1)))"
      using pp w2 by simp
  next
    show "check_interval * int 2 < waiting_room_timeout (config started_run)"
      using T by (simp add: check_interval_def)
  next
    have "shows_denial denied_poll" by code_simp
    then show "shows_denial (waiting_room (join_env (start_with denied_join))
                               (check_interval * (int 2 + 1)))"
      using w2 by (simp add: check_interval_def)
  qed
  note R2 = admission_wait_outcomes[OF url e2, THEN conjunct2, THEN conjunct1, THEN spec, THEN mp, OF a2]
  have a3: "(\<forall>j<3. still_pending (waiting_room (join_env (start_with late_join))
                        (check_interval * (int j + 1)))) \<and>
            check_interval * int 3 < waiting_room_timeout (config started_run) \<and>
            verify_in_meeting (waiting_room (join_env (start_with late_join))
                                 (check_interval * (int 3 + 1)))"
  proof (intro conjI allI impI)
    fix j :: nat assume "j < 3"
    then have "check_interval * (int j + 1) < 20" by (simp add: check_interval_def)
    then show "still_pending (waiting_room (join_env (start_with late_join))
                                (check_interval * (int j + 1)))"
      using pp w3 by simp
  next
    show "check_interval * int 3 < waiting_room_timeout (config started_run)"
      using T by (simp add: check_interval_def)
  next
    show "verify_in_meeting (waiting_room (join_env (start_with late_join))
                               (check_interval * (int 3 + 1)))"
      using w3 by (simp add: check_interval_def)
  qed
  note R3 = admission_wait_outcomes[OF url e3, THEN conjunct2, THEN conjunct2, THEN spec, THEN mp, OF a3]
  show ?thesis
    using r1 R1 R2 R3 j1 j2 j3 audio by (simp add: check_interval_def)
qed

subsection \<open>Fail-soft and fail-hard stages\<close>

text \<open>
  The providers whose entry point is a \<^verbatim>\<open>try\<close> block give their empty result
  when the body raises.
\<close>

lemma providers_absorb_their_errors:
  "pyannote P = Inl e \<Longrightarrow> diarize P = DiarizationResult_default"
  "identify_topics P = Inl e \<Longrightarrow> segment_topics P t = TopicSegmentationResult_default"
  "sentiment_body P = Inl e \<Longrightarrow> analyze P = SentimentResult_default"
  "extract_body P = Inl e \<Longrightarrow> extract_actions P = ActionItemResult_default"
  "followup_llm P = Inl e \<Longrightarrow> followup_enabled P \<Longrightarrow> generate P = followup_template P"
  by (simp_all add: diarize_def diarize_pyannote_def diarize_fallback_def
                    DiarizationResult_default_def segment_topics_def analyze_def
                    extract_actions_def generate_def)

text \<open>Transcription is fail-hard: its exception becomes the session's error.\<close>

lemma transcription_failure_is_error:
  "whisper P = Inl e \<Longrightarrow>
     status (fst (process_handled P ms s st)) = ''error'' \<and>
     error (fst (process_handled P ms s st)) = Some e"
  by (simp add: process_handled_def process_try_def enrich_def transcribe_def Let_def)

text \<open>
  Claim C1 at inputs where the code does not do what the claim says. Session 1 has
  recorded; transcription, summary, report and database all succeed.
  \<^item> The diarizer finds one speaker: aligning its segments with the transcript raises
    AttributeError, and the session ends with status \<^verbatim>\<open>error\<close>.
  \<^item> The vector store raises in \<^verbatim>\<open>store_meeting\<close>: status \<^verbatim>\<open>error\<close>.
  \<^item> Nothing would catch a raise of \<^verbatim>\<open>generate_metrics\<close> either (status
    \<^verbatim>\<open>error\<close>), though its body does not raise on the values of the pipeline.
  A diarizer that raises is absorbed, and the session completes.
\<close>

theorem unguarded_stages_fail_the_session:
  "session_status 1
     (run_session_resume
        (good_providers\<lparr>diarizer_initialized := True, pyannote := Inr one_speaker\<rparr>) 1
        recorded_run) = Some ''error'' \<and>
   map_option error
     (sessions
        (run_session_resume
           (good_providers\<lparr>diarizer_initialized := True, pyannote := Inr one_speaker\<rparr>) 1
           recorded_run) 1) =
     Some (Some ''AttributeError: TranscriptionSegment object has no attribute get'') \<and>
   session_status 1
     (run_session_resume (good_providers\<lparr>memory_store := Inl ''chromadb: disk full''\<rparr>) 1
        recorded_run) = Some ''error'' \<and>
   session_status 1
     (run_session_resume (good_providers\<lparr>metrics_body := Inl ''TypeError''\<rparr>) 1
        recorded_run) = Some ''error'' \<and>
   session_status 1
     (run_session_resume
        (good_providers\<lparr>diarizer_initialized := True, pyannote := Inl ''CUDA out of memory''\<rparr>)
        1 recorded_run) = Some ''completed''"
  by code_simp

subsection \<open>The HTTP handlers\<close>

text \<open>
  Claim C9 at an input where the code does not do what the claim says: with an
  initialised controller that knows no session 42, in registry or storage, the status
  and transcript handlers answer 404, and the stop handler answers 500, because it turns
  the ValueError of \<^verbatim>\<open>stop_session\<close> into a 500 like any other exception.
  Before initialisation all of them answer 503.
\<close>

theorem stop_unknown_session_is_500:
  "fst (stop_meeting (good_end 0) (Some (new_controller default_config)) 42) =
     HTTPException 500 ''Session 42 not found'' \<and>
   get_meeting_status (Some (new_controller default_config)) 42 =
     HTTPException 404 ''Session not found'' \<and>
   get_transcript_handler (Some (new_controller default_config)) 42 =
     HTTPException 404 ''Transcript not available'' \<and>
   fst (stop_meeting (good_end 0) None 42) = HTTPException 503 ''Controller not initialized'' \<and>
   get_meeting_status None 42 = HTTPException 503 ''Controller not initialized''"
  by code_simp

subsection \<open>The end-detection monitor\<close>

lemma process_handled_status:
  "status (fst (process_handled P ms s st)) = ''completed'' \<or>
   status (fst (process_handled P ms s st)) = ''error''"
proof (cases "process_try P ms s st")
  case (Inl x)
  then show ?thesis by (simp add: process_handled_def split: prod.splits)
next
  case (Inr r)
  then have "status (fst r) = ''completed''"
    using deliver_completed
    by (auto simp: process_try_def split: sum.splits prod.splits)
  with Inr show ?thesis by (simp add: process_handled_def)
qed

lemma process_recording_status:
  assumes "sessions c i = Some s" and "process_recording P i c = Inr c2"
  shows "session_status i c2 = Some ''completed'' \<or> session_status i c2 = Some ''error''"
proof (cases "case meeting_session s of None \<Rightarrow> None | Some a \<Rightarrow> objects c a")
  case None
  with assms show ?thesis by (simp add: process_recording_def)
next
  case (Some ms)
  show ?thesis
  proof (cases "ms_audio_file ms = None \<or> \<not> audio_file_exists P")
    case True
    with assms Some have "c2 = c\<lparr>sessions := (sessions c)(i \<mapsto>
                          s\<lparr>status := ''error'', error := Some ''No audio file recorded''\<rparr>)\<rparr>"
      by (auto simp: process_recording_def)
    then show ?thesis by (simp add: session_status_def)
  next
    case False
    with assms Some have "c2 = c\<lparr>sessions := (sessions c)(i \<mapsto>
                             fst (process_handled P ms s (storage c))),
                           storage := snd (process_handled P ms s (storage c))\<rparr>"
      by (auto simp: process_recording_def Let_def)
    then show ?thesis
      using process_handled_status[of P ms s "storage c"] by (simp add: session_status_def)
  qed
qed

lemma run_session_resume_status:
  assumes "i \<in> set (waiting c)" and "\<not> is_active c" and "sessions c i \<noteq> None"
  shows "session_status i (run_session_resume P i c) = Some ''completed'' \<or>
         session_status i (run_session_resume P i c) = Some ''error''"
proof -
  from assms(3) obtain s where s: "sessions c i = Some s" by auto
  let ?c0 = "c\<lparr>waiting := removeAll i (waiting c)\<rparr>"
  let ?c1 = "update_session i (\<lambda>s. s\<lparr>status := ''processing''\<rparr>) ?c0"
  have s1: "sessions ?c1 i = Some (s\<lparr>status := ''processing''\<rparr>)"
    using s by (simp add: update_session_def)
  show ?thesis
  proof (cases "process_recording P i ?c1")
    case (Inl e)
    then show ?thesis
      using assms s1 by (simp add: run_session_resume_def Let_def update_session_status)
  next
    case (Inr c2)
    from process_recording_status[OF s1 Inr] Inr show ?thesis
      using assms by (simp add: run_session_resume_def Let_def)
  qed
qed


lemma end_session_inactive:
  "stream_stop env = Inr () \<Longrightarrow> browser_close env = Inr () \<Longrightarrow>
     fst (end_session env c) = None \<and> \<not> is_active (snd (end_session env c))"
  by (auto simp: end_session_def is_active_def update_object_def Let_def
           split: option.splits)

lemma is_active_stop_running [simp]: "is_active (stop_running t c) = is_active c"
  by (simp add: is_active_def stop_running_def split: option.splits)

text \<open>
  What the monitor does for the maximal duration when the audio stream and the browser
  let go: the wake-up that reads \<open>elapsed \<ge> max_duration_minutes * 60\<close> ends the
  recorder's session.
\<close>

lemma max_duration_tick_ends:
  assumes "map_of (monitors c) (monitor tk) = Some t0"
    and "max_duration (config c) \<le> woke_at tk - t0"
    and "stream_stop (end_env tk) = Inr ()" and "browser_close (end_env tk) = Inr ()"
  shows "\<not> is_active (monitor_tick tk c)"
  using assms end_session_inactive[OF assms(3,4), of c]
  by (simp add: monitor_tick_def Let_def)

text \<open>
  Once no monitoring task runs, no wake-up changes anything; and while the recorder is
  active, the driving task of a waiting session sleeps again.
\<close>

lemma no_monitor_no_change: "monitors c = [] \<Longrightarrow> monitor_meeting tks c = c"
  by (induction tks) (simp_all add: monitor_tick_def)

lemma active_recorder_keeps_waiting: "is_active c \<Longrightarrow> run_session_resume P i c = c"
  by (simp add: run_session_resume_def)

text \<open>
  Claim C6 at an input where the code does not do what the claim says. Session 1
  records from second 100 with \<^verbatim>\<open>max_duration_minutes = 1\<close> and a monitor tick of
  10 seconds; it is still recording after the wake-up at second 150. At second 160 the
  monitor reads \<open>elapsed = 60\<close> and calls \<^verbatim>\<open>end_session\<close>, where closing the
  browser raises. That call is outside any \<^verbatim>\<open>try\<close>, so the monitoring task ends
  with the exception, before the session's state is set to ENDED: the recorder stays
  active with no monitoring task left, later wake-ups change nothing, and the session's
  status stays \<^verbatim>\<open>recording\<close>. When the browser closes normally, the same wake-up
  ends the recording.
\<close>

theorem failed_release_leaves_session_recording:
  "max_duration (config one_minute_run) = 60 \<and>
   map_of (monitors one_minute_run) 0 = Some 100 \<and>
   is_active (monitor_meeting (map quiet_tick [110, 120, 130, 140, 150]) one_minute_run) \<and>
   is_active stuck_run \<and>
   monitors stuck_run = [] \<and>
   is_active (monitor_meeting (map quiet_tick [170, 180, 190]) stuck_run) \<and>
   session_status 1
     (run_session_resume good_providers 1
        (monitor_meeting (map quiet_tick [170, 180, 190]) stuck_run)) = Some ''recording'' \<and>
   \<not> is_active
       (monitor_meeting (map quiet_tick [110, 120, 130, 140, 150, 160]) one_minute_run)"
  by code_simp

subsection \<open>Stopping a session\<close>

text \<open>
  Claim C2 at inputs where the code does not do what the claim says. Session 1 has
  completed, with its report mailed; a \<^verbatim>\<open>stop_session\<close> on it returns normally
  and the status is \<^verbatim>\<open>stopped\<close>, so the snapshot no longer reports the mail as
  sent. The same happens to a session that ended in \<^verbatim>\<open>error\<close>. A second
  \<^verbatim>\<open>stop_session\<close> leaves the status \<^verbatim>\<open>stopped\<close>.
\<close>

theorem stop_overwrites_terminal_status:
  "session_status 1 completed_run = Some ''completed'' \<and>
   map_option email_sent (get_session_status 1 completed_run) = Some True \<and>
   fst (stop_session (good_end 200) 1 completed_run) = None \<and>
   session_status 1 (snd (stop_session (good_end 200) 1 completed_run)) = Some ''stopped'' \<and>
   map_option email_sent
     (get_session_status 1 (snd (stop_session (good_end 200) 1 completed_run))) = Some False \<and>
   session_status 1 failed_run = Some ''error'' \<and>
   session_status 1 (snd (stop_session (good_end 200) 1 failed_run)) = Some ''stopped'' \<and>
   session_status 1
     (snd (stop_session (good_end 210) 1 (snd (stop_session (good_end 200) 1 failed_run)))) =
     Some ''stopped''"
  by code_simp

text \<open>
  Claim C3 at an input where the code does not do what the claim says. Session 1 is
  recording; \<^verbatim>\<open>stop_session\<close> returns normally with the recorder's session ended
  and the status \<^verbatim>\<open>stopped\<close>. The driving task then wakes in its loop, finds the
  recorder inactive, writes \<^verbatim>\<open>processing\<close> over \<^verbatim>\<open>stopped\<close> and runs the
  pipeline: the session ends \<^verbatim>\<open>completed\<close>.
\<close>

theorem stopped_session_completes:
  "session_status 1 recording_run = Some ''recording'' \<and>
   fst (stop_session (good_end 130) 1 recording_run) = None \<and>
   session_status 1 stopped_run = Some ''stopped'' \<and>
   map_option ms_state (session_object 1 stopped_run) = Some ENDED \<and>
   session_status 1 (run_session_resume good_providers 1 stopped_run) = Some ''completed''"
  by code_simp

subsection \<open>Sessions side by side\<close>

lemma run_session_joining_others:
  "k \<noteq> i \<Longrightarrow> sessions (run_session_joining i c) k = sessions c k"
  by (auto simp: run_session_joining_def Let_def update_session_def split: option.splits)

lemma run_session_joined_others:
  "k \<noteq> i \<Longrightarrow> sessions (run_session_joined env i c) k = sessions c k"
  by (auto simp: run_session_joined_def Let_def update_session_def split: option.splits)

lemma run_session_joining_inactive:
  "sessions c i \<noteq> None \<Longrightarrow> \<not> is_active (run_session_joining i c)"
  by (auto simp: run_session_joining_def Let_def update_session_def recorder_begin_join_def
                 is_active_def)

text \<open>
  What the replaced recorder session does to a recording in progress. Session 1 records;
  a second session is started and its task begins to join. The recorder's session is now
  the new object, in state JOINING, so the next poll of session 1's task finds the
  recorder inactive and goes on to process a recording that nobody has stopped: the
  audio file has not been written, and session 1 ends with status \<^verbatim>\<open>error\<close>.
\<close>

lemma joining_ends_earlier_recording:
  "session_status 1 recording_run = Some ''recording'' \<and>
   session_status 1
     (run_session_resume (good_providers\<lparr>audio_file_exists := False\<rparr>) 1
        (run_session_joining 2
           (snd (start_session zoom_url ''ben@example.org'' True recording_run)))) =
     Some ''error'' \<and>
   map_option ms_state
     (session_object 1
        (run_session_joining 2
           (snd (start_session zoom_url ''ben@example.org'' True recording_run)))) =
     Some RECORDING"
  by code_simp

text \<open>
  Claim C4, as stated, says that at most one session is in a live phase. Two calls of
  \<^verbatim>\<open>start_session\<close> return the ids 1 and 2 and both tasks start their join; when
  the joins have returned, first that of session 1 and then that of session 2, both
  sessions have status \<^verbatim>\<open>recording\<close>, on a MeetingSession in state RECORDING
  and on the same audio file, because the audio capture was already running when the
  second recording was started.
\<close>

theorem two_sessions_record_at_once:
  "session_status 1 two_sessions_run = Some ''recording'' \<and>
   session_status 2 two_sessions_run = Some ''recording'' \<and>
   map_option ms_state (session_object 1 two_sessions_run) = Some RECORDING \<and>
   map_option ms_state (session_object 2 two_sessions_run) = Some RECORDING \<and>
   map_option ms_audio_file (session_object 1 two_sessions_run) =
     Some (Some ''recordings/meeting_audio.wav'') \<and>
   map_option ms_audio_file (session_object 2 two_sessions_run) =
     Some (Some ''recordings/meeting_audio.wav'')"
  by code_simp

text \<open>
  Claim C4, amended. The orchestrator applies no admission control to the join/record
  resource; each step of a new session is taken whatever the other sessions are doing,
  and writes no other session's entry of the registry.
  \<^item> \<^verbatim>\<open>start_session\<close> is neither rejected nor queued: it returns an id that was
    not in the registry, registers the session and creates its task.
  \<^item> The task starts its join at once: the session gets status \<^verbatim>\<open>joining\<close>
    and the recorder's session is replaced by a new object, so the recorder no longer
    reports an earlier recording as active.
  \<^item> When the join returns and the recording starts, the session gets status
    \<^verbatim>\<open>recording\<close>.
  So more than one session can be in a live phase at a time.
\<close>

theorem start_session_no_admission_control:
  assumes "registry_ok c"
  shows "sessions c (fst (start_session url email send c)) = None \<and>
         sessions (snd (start_session url email send c)) (fst (start_session url email send c)) =
           Some (new_session (fst (start_session url email send c)) url email send) \<and>
         fst (start_session url email send c) \<in> set (tasks (snd (start_session url email send c))) \<and>
         (\<forall>k. k \<noteq> fst (start_session url email send c) \<longrightarrow>
              sessions (snd (start_session url email send c)) k = sessions c k) \<and>
         session_status (fst (start_session url email send c))
           (run_session_joining (fst (start_session url email send c))
              (snd (start_session url email send c))) = Some ''joining'' \<and>
         (\<forall>k. k \<noteq> fst (start_session url email send c) \<longrightarrow>
              sessions
                (run_session_joining (fst (start_session url email send c))
                   (snd (start_session url email send c))) k = sessions c k) \<and>
         \<not> is_active
             (run_session_joining (fst (start_session url email send c))
                (snd (start_session url email send c))) \<and>
         (\<forall>env i c2.
            i \<in> set (joining c2) \<and> map_option meeting_url (sessions c2 i) = Some url \<and>
            recorder_has_session c2 \<and> start_succeeds env url c2 \<longrightarrow>
            session_status i (run_session_joined env i c2) = Some ''recording'' \<and>
            (\<forall>k. k \<noteq> i \<longrightarrow> sessions (run_session_joined env i c2) k = sessions c2 k))"
proof -
  let ?i = "session_counter c + 1"
  let ?c' = "snd (start_session url email send c)"
  have i: "fst (start_session url email send c) = ?i"
    by (simp add: start_session_facts)
  have fresh: "sessions c ?i = None"
  proof (rule ccontr)
    assume "sessions c ?i \<noteq> None"
    moreover from assms have "sessions c ?i \<noteq> None \<longrightarrow> ?i \<le> session_counter c"
      unfolding registry_ok_def by blast
    ultimately have "?i \<le> session_counter c" by blast
    then show False by simp
  qed
  have reg: "sessions ?c' ?i = Some (new_session ?i url email send)"
    by (simp add: start_session_facts)
  have task: "?i \<in> set (tasks ?c')"
    by (simp add: start_session_facts)
  have others: "sessions ?c' k = sessions c k" if "k \<noteq> ?i" for k
    using that by (simp add: start_session_facts)
  have joining: "session_status ?i (run_session_joining ?i ?c') = Some ''joining''"
    using run_session_joining_state[OF reg] by (simp add: session_status_def)
  have others': "sessions (run_session_joining ?i ?c') k = sessions c k" if "k \<noteq> ?i" for k
    using that run_session_joining_others[of k ?i ?c'] others[of k] by simp
  have inactive: "\<not> is_active (run_session_joining ?i ?c')"
    using run_session_joining_inactive[of ?c' ?i] reg by simp
  have joined: "session_status j (run_session_joined env j c2) = Some ''recording'' \<and>
            (\<forall>k. k \<noteq> j \<longrightarrow> sessions (run_session_joined env j c2) k = sessions c2 k)"
    if h: "j \<in> set (joining c2) \<and> map_option meeting_url (sessions c2 j) = Some url \<and>
           recorder_has_session c2 \<and> start_succeeds env url c2" for env j c2
  proof -
    from h obtain s where s: "sessions c2 j = Some s" "meeting_url s = url" by auto
    from h obtain a m where a: "recorder_session c2 = Some a" "objects c2 a = Some m"
      by (auto simp: recorder_has_session_def split: option.splits)
    from h have j: "j \<in> set (joining c2)" and ok: "start_succeeds env url c2" by simp_all
    show ?thesis
      using run_session_joined_status[OF j s(1) a, of env] s(2) ok
        run_session_joined_others[of _ j env c2]
      by simp
  qed
  show ?thesis
    unfolding i using fresh reg task others joining others' inactive joined by blast
qed

theorem start_session_no_admission_control_witness:
  "session_status 1 recording_run = Some ''recording'' \<and>
   is_active recording_run \<and>
   session_status 2
     (run_session_joining 2
        (snd (start_session zoom_url ''ben@example.org'' True recording_run))) =
     Some ''joining'' \<and>
   session_status 1
     (run_session_joining 2
        (snd (start_session zoom_url ''ben@example.org'' True recording_run))) =
     Some ''recording'' \<and>
   \<not> is_active
       (run_session_joining 2
          (snd (start_session zoom_url ''ben@example.org'' True recording_run))) \<and>
   session_status 1 one_joined_run = Some ''recording'' \<and>
   session_status 2 one_joined_run = Some ''joining'' \<and>
   session_status 2 (run_session_joined good_start 2 one_joined_run) = Some ''recording'' \<and>
   session_status 1 (run_session_joined good_start 2 one_joined_run) = Some ''recording''"
proof -
  let ?r = "start_session zoom_url ''ben@example.org'' True recording_run"
  have ok0: "registry_ok started_run"
    using step_registry[OF registry_ok_new, of "Start meet_url ''ana@example.org'' True" default_config]
    by (simp add: started_run_def)
  have ok1: "registry_ok (run_session_joining 1 started_run)"
    using step_registry[OF ok0, of "Joining 1"] by simp
  have h1: "registry_ok recording_run"
    using step_registry[OF ok1, of "Joined good_start 1"]
    by (simp add: recording_run_def run_session_begin_def)
  have i: "fst ?r = 2" by code_simp
  have a: "session_status 1 recording_run = Some ''recording''" "is_active recording_run"
    by code_simp+
  have b: "session_status 1 one_joined_run = Some ''recording''"
    "session_status 2 one_joined_run = Some ''joining''"
    by code_simp+
  have h2: "2 \<in> set (joining one_joined_run) \<and>
            map_option meeting_url (sessions one_joined_run 2) = Some zoom_url \<and>
            recorder_has_session one_joined_run \<and>
            start_succeeds good_start zoom_url one_joined_run"
    by code_simp
  note T = start_session_no_admission_control[OF h1, of zoom_url "''ben@example.org''" True]
  from T i have j: "session_status 2 (run_session_joining 2 (snd ?r)) = Some ''joining''"
    by simp
  from T i have "\<forall>k. k \<noteq> 2 \<longrightarrow>
      sessions (run_session_joining 2 (snd ?r)) k = sessions recording_run k"
    by simp
  then have k: "session_status 1 (run_session_joining 2 (snd ?r)) = session_status 1 recording_run"
    by (simp add: session_status_def)
  from T i have n: "\<not> is_active (run_session_joining 2 (snd ?r))"
    by simp
  from T have "\<forall>env i c2.
            i \<in> set (joining c2) \<and> map_option meeting_url (sessions c2 i) = Some zoom_url \<and>
            recorder_has_session c2 \<and> start_succeeds env zoom_url c2 \<longrightarrow>
            session_status i (run_session_joined env i c2) = Some ''recording'' \<and>
            (\<forall>k. k \<noteq> i \<longrightarrow> sessions (run_session_joined env i c2) k = sessions c2 k)"
    by (elim conjE)
  with h2 have "session_status 2 (run_session_joined good_start 2 one_joined_run) =
                  Some ''recording'' \<and>
      (\<forall>k. k \<noteq> 2 \<longrightarrow> sessions (run_session_joined good_start 2 one_joined_run) k =
                      sessions one_joined_run k)"
    by blast
  then have l: "session_status 2 (run_session_joined good_start 2 one_joined_run) =
                  Some ''recording''"
    "session_status 1 (run_session_joined good_start 2 one_joined_run) =
       session_status 1 one_joined_run"
    by (simp_all add: session_status_def)
  show ?thesis using a b j k n l by simp
qed

end
